theory Spec2Isabelle
  imports Complex_Main "HOL-Library.Word"
begin

section \<open>Cloud-silhouette noise pipeline (tests/noise_test/clouds_bw.py)\<close>

text \<open>
  A shallow embedding of \<^verbatim>\<open>fade\<close>, \<^verbatim>\<open>lerp\<close>, \<^verbatim>\<open>perlin2d\<close>, \<^verbatim>\<open>fbm\<close> and of
  the padding and threshold stages of \<^verbatim>\<open>main\<close>.

  Conventions of the model.
  \<^item> Python integers are \<open>int\<close>. Floating-point numbers (Python floats, float64 and
    float32 arrays) are \<open>real\<close>: arithmetic is exact, \<^verbatim>\<open>astype(np.float32)\<close> is the
    identity, and neither rounding nor NaN and infinities exist. Only \<open>perlin2d_f32\<close>
    and \<open>fbm_f32\<close> round: they are perlin2d and fbm with the rounding to float32 as
    a parameter, for the one property that depends on it.
  \<^item> A two-dimensional array is a list of rows, \<open>a ! y ! x\<close>. Whole-array arithmetic of
    numpy is written elementwise.
  \<^item> Every exception is a value: a function that can raise returns \<open>py_error + 'a\<close>,
    with \<open>Inl\<close> the exception.
  \<^item> The seeded generator \<^verbatim>\<open>np.random.default_rng\<close> is a parameter \<open>default_rng\<close>:
    for a seed it either raises or gives the stream of the angles that
    \<^verbatim>\<open>uniform(0.0, 2.0 * math.pi, ...)\<close> draws, in row-major order.
\<close>

datatype py_error = ValueError | ZeroDivisionError | IndexError

type_synonym field = "real list list"

type_synonym rng = "int \<Rightarrow> py_error + (nat \<Rightarrow> real)"

subsection \<open>fade and lerp\<close>

definition fade :: "real \<Rightarrow> real" where
  "fade t = t * t * t * (t * (t * 6 - 15) + 10)"

definition lerp :: "real \<Rightarrow> real \<Rightarrow> real \<Rightarrow> real" where
  "lerp a b t = a + t * (b - a)"

subsection \<open>The numpy and Python primitives that the pipeline uses\<close>

text \<open>\<^verbatim>\<open>np.clip(v, lo, hi)\<close> at one element.\<close>

definition np_clip :: "real \<Rightarrow> real \<Rightarrow> real \<Rightarrow> real" where
  "np_clip v lo hi = min (max v lo) hi"

text \<open>The first exception of a list of results, or all their values.\<close>

fun collect :: "(py_error + 'a) list \<Rightarrow> py_error + 'a list" where
  "collect [] = Inr []"
| "collect (r # rs) =
     (case r of
        Inl e \<Rightarrow> Inl e
      | Inr v \<Rightarrow> (case collect rs of Inl e \<Rightarrow> Inl e | Inr vs \<Rightarrow> Inr (v # vs)))"

text \<open>
  \<^verbatim>\<open>np.linspace(0, stop, num, endpoint=False)\<close>: \<open>num\<close> samples \<open>k * (stop / num)\<close>;
  a negative \<open>num\<close> raises ValueError, \<open>num = 0\<close> gives the empty array.
\<close>

definition linspace :: "real \<Rightarrow> int \<Rightarrow> py_error + real list" where
  "linspace stop num =
     (if num < 0 then Inl ValueError
      else Inr (map (\<lambda>k. real k * (stop / of_int num)) [0..<nat num]))"

text \<open>
  \<^verbatim>\<open>x, y = np.meshgrid(xs, ys)\<close> gives \<open>x ! j ! i = xs ! i\<close> and
  \<open>y ! j ! i = ys ! j\<close>; \<open>grid_of xs ys f\<close> is the array of \<open>f x y\<close> over them.
\<close>

definition grid_of :: "real list \<Rightarrow> real list \<Rightarrow> (real \<Rightarrow> real \<Rightarrow> 'a) \<Rightarrow> 'a list list" where
  "grid_of xs ys f = map (\<lambda>y. map (\<lambda>x. f x y) xs) ys"

text \<open>\<^verbatim>\<open>a.min()\<close> and \<^verbatim>\<open>a.max()\<close>: ValueError on an array without elements.\<close>

definition amin :: "('a::linorder) list list \<Rightarrow> py_error + 'a" where
  "amin a = (case concat a of [] \<Rightarrow> Inl ValueError | v # vs \<Rightarrow> Inr (fold min vs v))"

definition amax :: "('a::linorder) list list \<Rightarrow> py_error + 'a" where
  "amax a = (case concat a of [] \<Rightarrow> Inl ValueError | v # vs \<Rightarrow> Inr (fold max vs v))"

text \<open>Python's \<^verbatim>\<open>round\<close> of a float: to the nearest integer, a tie to the even one.\<close>

definition py_round :: "real \<Rightarrow> int" where
  "py_round x =
     (let f = \<lfloor>x\<rfloor>; d = x - of_int f
      in if d < 1/2 then f else if 1/2 < d then f + 1 else if even f then f else f + 1)"

text \<open>
  \<^verbatim>\<open>a[gj, gi]\<close> on a two-dimensional array: an index from \<open>-len\<close> to \<open>-1\<close> counts
  from the end, an index outside \<open>-len .. len - 1\<close> raises IndexError.
\<close>

definition np_index2 :: "'a list list \<Rightarrow> int \<Rightarrow> int \<Rightarrow> py_error + 'a" where
  "np_index2 a gj gi =
     (let nh = int (length a)
      in if gj < - nh \<or> nh \<le> gj then Inl IndexError
         else (let row = a ! nat (if gj < 0 then gj + nh else gj); nw = int (length row)
               in if gi < - nw \<or> nw \<le> gi then Inl IndexError
                  else Inr (row ! nat (if gi < 0 then gi + nw else gi))))"

subsection \<open>The gradient lattice\<close>

text \<open>
  \<^verbatim>\<open>angles = rng.uniform(0.0, 2.0 * math.pi, size=(grid_h, grid_w))\<close> fills the array
  from the stream in row-major order;
  \<^verbatim>\<open>grads = np.dstack((np.cos(angles), np.sin(angles)))\<close>.
\<close>

definition uniform_angles :: "(nat \<Rightarrow> real) \<Rightarrow> int \<Rightarrow> int \<Rightarrow> real list list" where
  "uniform_angles draws grid_h grid_w =
     map (\<lambda>j. map (\<lambda>i. draws (j * nat grid_w + i)) [0..<nat grid_w]) [0..<nat grid_h]"

definition gradient_grid :: "(nat \<Rightarrow> real) \<Rightarrow> int \<Rightarrow> int \<Rightarrow> (real \<times> real) list list" where
  "gradient_grid draws grid_h grid_w =
     map (map (\<lambda>a. (cos a, sin a))) (uniform_angles draws grid_h grid_w)"

text \<open>Tileable mode: \<^verbatim>\<open>grid_w = max(1, int(round(width / scale)))\<close>.\<close>

definition tile_cells :: "int \<Rightarrow> real \<Rightarrow> int" where
  "tile_cells dimension scale = max 1 (py_round (of_int dimension / scale))"

text \<open>The two \<^verbatim>\<open>grad_at\<close> closures of perlin2d, at one index pair.\<close>

definition grad_at_tile ::
  "int \<Rightarrow> int \<Rightarrow> (real \<times> real) list list \<Rightarrow> int \<Rightarrow> int \<Rightarrow> py_error + (real \<times> real)" where
  "grad_at_tile grid_w grid_h grads ix iy =
     (let gi = ix mod grid_w; gj = iy mod grid_h in np_index2 grads gj gi)"

definition grad_at_box ::
  "int \<Rightarrow> int \<Rightarrow> (real \<times> real) list list \<Rightarrow> int \<Rightarrow> int \<Rightarrow> py_error + (real \<times> real)" where
  "grad_at_box gx_min gy_min grads ix iy =
     (let gi = ix - gx_min; gj = iy - gy_min in np_index2 grads gj gi)"

text \<open>
  Non-tileable mode, lines 74 to 88: the bounds of the lattice points that the sample
  grid needs, \<^verbatim>\<open>gx_min, gx_max = x0.min(), x1.max()\<close> and the same for y.
\<close>

definition box_bounds :: "real list \<Rightarrow> real list \<Rightarrow> py_error + (int \<times> int \<times> int \<times> int)" where
  "box_bounds xs ys =
     (let x0 = grid_of xs ys (\<lambda>x y. \<lfloor>x\<rfloor>);
          y0 = grid_of xs ys (\<lambda>x y. \<lfloor>y\<rfloor>);
          x1 = map (map (\<lambda>v. v + 1)) x0;
          y1 = map (map (\<lambda>v. v + 1)) y0
      in case amin x0 of Inl e \<Rightarrow> Inl e | Inr gx_min \<Rightarrow>
         (case amax x1 of Inl e \<Rightarrow> Inl e | Inr gx_max \<Rightarrow>
         (case amin y0 of Inl e \<Rightarrow> Inl e | Inr gy_min \<Rightarrow>
         (case amax y1 of Inl e \<Rightarrow> Inl e | Inr gy_max \<Rightarrow>
            Inr (gx_min, gx_max, gy_min, gy_max)))))"

subsection \<open>perlin2d\<close>

text \<open>The four lattice corners of the cell of a sample point, in the order of lines 101 to 104.\<close>

definition cell_corners :: "real \<Rightarrow> real \<Rightarrow> (int \<times> int) list" where
  "cell_corners x y =
     (let x0 = \<lfloor>x\<rfloor>; y0 = \<lfloor>y\<rfloor>; x1 = x0 + 1; y1 = y0 + 1
      in [(x0, y0), (x1, y0), (x0, y1), (x1, y1)])"

text \<open>Lines 100 to 123 at one sample point \<open>(x, y)\<close>.\<close>

definition noise_at ::
  "(int \<Rightarrow> int \<Rightarrow> py_error + (real \<times> real)) \<Rightarrow> real \<Rightarrow> real \<Rightarrow> py_error + real" where
  "noise_at grad_at x y =
     (let x0 = \<lfloor>x\<rfloor>; y0 = \<lfloor>y\<rfloor>; x1 = x0 + 1; y1 = y0 + 1;
          sx = x - of_int x0; sy = y - of_int y0
      in case grad_at x0 y0 of Inl e \<Rightarrow> Inl e | Inr (g00x, g00y) \<Rightarrow>
         (case grad_at x1 y0 of Inl e \<Rightarrow> Inl e | Inr (g10x, g10y) \<Rightarrow>
         (case grad_at x0 y1 of Inl e \<Rightarrow> Inl e | Inr (g01x, g01y) \<Rightarrow>
         (case grad_at x1 y1 of Inl e \<Rightarrow> Inl e | Inr (g11x, g11y) \<Rightarrow>
            (let dx0 = sx; dy0 = sy; dx1 = sx - 1; dy1 = sy - 1;
                 n00 = g00x * dx0 + g00y * dy0;
                 n10 = g10x * dx1 + g10y * dy0;
                 n01 = g01x * dx0 + g01y * dy1;
                 n11 = g11x * dx1 + g11y * dy1;
                 u = fade sx; v = fade sy;
                 nx0 = lerp n00 n10 u;
                 nx1 = lerp n01 n11 u
             in Inr (lerp nx0 nx1 v))))))"

text \<open>Line 126: \<^verbatim>\<open>(nxy - nxy.min()) / (nxy.max() - nxy.min() + 1e-12)\<close>.\<close>

definition minmax_normalize :: "field \<Rightarrow> py_error + field" where
  "minmax_normalize nxy =
     (case amin nxy of Inl e \<Rightarrow> Inl e | Inr lo \<Rightarrow>
     (case amax nxy of Inl e \<Rightarrow> Inl e | Inr hi \<Rightarrow>
        Inr (map (map (\<lambda>v. (v - lo) / (hi - lo + 1 / 10 ^ 12))) nxy)))"

text \<open>Lines 100 to 127 over the whole sample grid.\<close>

definition interpolate ::
  "(int \<Rightarrow> int \<Rightarrow> py_error + (real \<times> real)) \<Rightarrow> real list \<Rightarrow> real list \<Rightarrow> py_error + field" where
  "interpolate grad_at xs ys =
     (case collect (map collect (grid_of xs ys (noise_at grad_at))) of
        Inl e \<Rightarrow> Inl e
      | Inr nxy \<Rightarrow> minmax_normalize nxy)"

definition perlin2d :: "rng \<Rightarrow> int \<Rightarrow> int \<Rightarrow> real \<Rightarrow> int \<Rightarrow> bool \<Rightarrow> py_error + field" where
  "perlin2d default_rng width height scale seed tileable =
     (if scale \<le> 0 then Inl ValueError
      else case default_rng seed of Inl e \<Rightarrow> Inl e | Inr draws \<Rightarrow>
        (if tileable
         then (let grid_w = tile_cells width scale; grid_h = tile_cells height scale
               in case linspace (of_int grid_w) width of Inl e \<Rightarrow> Inl e | Inr xs \<Rightarrow>
                  (case linspace (of_int grid_h) height of Inl e \<Rightarrow> Inl e | Inr ys \<Rightarrow>
                     interpolate (grad_at_tile grid_w grid_h (gradient_grid draws grid_h grid_w))
                       xs ys))
         else (case linspace (of_int width / scale) width of Inl e \<Rightarrow> Inl e | Inr xs \<Rightarrow>
              (case linspace (of_int height / scale) height of Inl e \<Rightarrow> Inl e | Inr ys \<Rightarrow>
              (case box_bounds xs ys of Inl e \<Rightarrow> Inl e
               | Inr (gx_min, gx_max, gy_min, gy_max) \<Rightarrow>
                   (let grid_w = gx_max - gx_min + 1; grid_h = gy_max - gy_min + 1
                    in interpolate
                         (grad_at_box gx_min gy_min (gradient_grid draws grid_h grid_w))
                         xs ys))))))"

subsection \<open>fbm\<close>

text \<open>\<^verbatim>\<open>np.zeros((height, width))\<close>: ValueError on a negative dimension.\<close>

definition np_zeros :: "int \<Rightarrow> int \<Rightarrow> py_error + field" where
  "np_zeros height width =
     (if height < 0 \<or> width < 0 then Inl ValueError
      else Inr (replicate (nat height) (replicate (nat width) 0)))"

text \<open>\<^verbatim>\<open>total += n * amp\<close>, on arrays of one shape.\<close>

definition accumulate :: "field \<Rightarrow> field \<Rightarrow> real \<Rightarrow> field" where
  "accumulate tot n a = map2 (map2 (\<lambda>t v. t + v * a)) tot n"

text \<open>
  The variables that the loop of fbm updates: the source's \<^verbatim>\<open>total\<close>, \<^verbatim>\<open>amp\<close>,
  \<^verbatim>\<open>amp_sum\<close> and \<^verbatim>\<open>scale\<close>.
\<close>

record fbm_state =
  st_total :: field
  st_amp :: real
  st_amp_sum :: real
  st_scale :: real

text \<open>
  The body of the loop of lines 140 to 145, for the octave indices still to run.
  \<^verbatim>\<open>scale /= lacunarity\<close> divides Python floats: ZeroDivisionError when
  \<open>lacunarity\<close> is 0.
\<close>

fun fbm_loop ::
  "rng \<Rightarrow> int \<Rightarrow> int \<Rightarrow> real \<Rightarrow> real \<Rightarrow> int \<Rightarrow> bool \<Rightarrow> int list \<Rightarrow> fbm_state
     \<Rightarrow> py_error + fbm_state" where
  "fbm_loop default_rng width height lacunarity gain seed tileable [] st = Inr st"
| "fbm_loop default_rng width height lacunarity gain seed tileable (i # is) st =
     (case perlin2d default_rng width height (st_scale st) (seed + 1013 * i) tileable of
        Inl e \<Rightarrow> Inl e
      | Inr n \<Rightarrow>
          (if lacunarity = 0 then Inl ZeroDivisionError
           else fbm_loop default_rng width height lacunarity gain seed tileable is
                  \<lparr>st_total = accumulate (st_total st) n (st_amp st),
                   st_amp = st_amp st * gain,
                   st_amp_sum = st_amp_sum st + st_amp st,
                   st_scale = st_scale st / lacunarity\<rparr>))"

text \<open>\<^verbatim>\<open>range(octaves)\<close>: empty when \<open>octaves\<close> is 0 or negative.\<close>

definition py_range :: "int \<Rightarrow> int list" where
  "py_range n = map int [0..<nat n]"

text \<open>Lines 147 and 148: \<^verbatim>\<open>total /= (amp_sum + 1e-12)\<close>, then the clip to [0, 1].\<close>

definition renormalize :: "field \<Rightarrow> real \<Rightarrow> field" where
  "renormalize tot divisor = map (map (\<lambda>v. np_clip (v / divisor) 0 1)) tot"

definition fbm ::
  "rng \<Rightarrow> int \<Rightarrow> int \<Rightarrow> real \<Rightarrow> int \<Rightarrow> real \<Rightarrow> real \<Rightarrow> int \<Rightarrow> bool \<Rightarrow> py_error + field" where
  "fbm default_rng width height base_scale octaves lacunarity gain seed tileable =
     (case np_zeros height width of Inl e \<Rightarrow> Inl e | Inr zeros \<Rightarrow>
     (case fbm_loop default_rng width height lacunarity gain seed tileable (py_range octaves)
             \<lparr>st_total = zeros, st_amp = 1, st_amp_sum = 0, st_scale = base_scale\<rparr> of
        Inl e \<Rightarrow> Inl e
      | Inr st \<Rightarrow> Inr (renormalize (st_total st) (st_amp_sum st + 1 / 10 ^ 12))))"

subsection \<open>The octaves of fbm in closed form\<close>

text \<open>
  The description of section 4.3 of the specification, to be compared with \<open>fbm\<close>:
  octave \<open>i\<close> is a perlin2d call with scale \<open>base_scale / lacunarity ^ i\<close> and seed
  \<open>seed + 1013 * i\<close>, weighted by \<open>gain ^ i\<close>; the weighted octaves are summed, the
  sum is divided by the sum of the weights plus \<open>guard\<close>, and the result is clamped to
  [0, 1]. The specification's words are \<open>guard = 0\<close>.
\<close>

definition octave_scale :: "real \<Rightarrow> real \<Rightarrow> nat \<Rightarrow> real" where
  "octave_scale base_scale lacunarity i = base_scale / lacunarity ^ i"

definition octave_seed :: "int \<Rightarrow> nat \<Rightarrow> int" where
  "octave_seed seed i = seed + 1013 * int i"

definition octave_amp :: "real \<Rightarrow> nat \<Rightarrow> real" where
  "octave_amp gain i = gain ^ i"

definition octave_noise ::
  "rng \<Rightarrow> int \<Rightarrow> int \<Rightarrow> real \<Rightarrow> real \<Rightarrow> int \<Rightarrow> bool \<Rightarrow> nat \<Rightarrow> py_error + field" where
  "octave_noise default_rng width height base_scale lacunarity seed tileable i =
     perlin2d default_rng width height (octave_scale base_scale lacunarity i)
       (octave_seed seed i) tileable"

definition weighted_sum :: "field \<Rightarrow> (field \<times> real) list \<Rightarrow> field" where
  "weighted_sum zeros terms = foldl (\<lambda>tot (n, a). accumulate tot n a) zeros terms"

definition fbm_by_octaves ::
  "real \<Rightarrow> rng \<Rightarrow> int \<Rightarrow> int \<Rightarrow> real \<Rightarrow> int \<Rightarrow> real \<Rightarrow> real \<Rightarrow> int \<Rightarrow> bool
     \<Rightarrow> py_error + field" where
  "fbm_by_octaves guard default_rng width height base_scale octaves lacunarity gain seed tileable =
     (case np_zeros height width of Inl e \<Rightarrow> Inl e | Inr zeros \<Rightarrow>
     (case collect (map (octave_noise default_rng width height base_scale lacunarity seed
                           tileable) [0..<nat octaves]) of
        Inl e \<Rightarrow> Inl e
      | Inr ns \<Rightarrow>
          Inr (renormalize
                 (weighted_sum zeros (zip ns (map (octave_amp gain) [0..<nat octaves])))
                 (sum_list (map (octave_amp gain) [0..<nat octaves]) + guard))))"

text \<open>Every pixel of a field lies in [0, 1].\<close>

definition in_unit_interval :: "field \<Rightarrow> bool" where
  "in_unit_interval F = list_all (list_all (\<lambda>p. 0 \<le> p \<and> p \<le> 1)) F"

text \<open>An array of \<open>h\<close> rows of \<open>w\<close> elements.\<close>

definition has_shape :: "'a list list \<Rightarrow> nat \<Rightarrow> nat \<Rightarrow> bool" where
  "has_shape a h w = (length a = h \<and> list_all (\<lambda>row. length row = w) a)"

subsection \<open>perlin2d and fbm on float32 arrays\<close>

text \<open>
  The arrays of perlin2d's result and of fbm are float32. Here the rounding of a real
  number to float32 is a parameter \<open>f32\<close>, and every float32 operation of the source
  is the exact operation followed by \<open>f32\<close>: the cast of line 127, and in fbm the
  products, sums and quotients of a float32 array with a Python float, which numpy
  computes in float32 after casting the Python float. float64 stays exact.
\<close>

definition perlin2d_f32 ::
  "(real \<Rightarrow> real) \<Rightarrow> rng \<Rightarrow> int \<Rightarrow> int \<Rightarrow> real \<Rightarrow> int \<Rightarrow> bool \<Rightarrow> py_error + field" where
  "perlin2d_f32 f32 default_rng width height scale seed tileable =
     (case perlin2d default_rng width height scale seed tileable of
        Inl e \<Rightarrow> Inl e
      | Inr nxy \<Rightarrow> Inr (map (map f32) nxy))"

text \<open>\<^verbatim>\<open>total += n * amp\<close> in float32.\<close>

definition accumulate_f32 :: "(real \<Rightarrow> real) \<Rightarrow> field \<Rightarrow> field \<Rightarrow> real \<Rightarrow> field" where
  "accumulate_f32 f32 tot n a = map2 (map2 (\<lambda>t v. f32 (t + f32 (v * f32 a)))) tot n"

fun fbm_loop_f32 ::
  "(real \<Rightarrow> real) \<Rightarrow> rng \<Rightarrow> int \<Rightarrow> int \<Rightarrow> real \<Rightarrow> real \<Rightarrow> int \<Rightarrow> bool \<Rightarrow> int list
     \<Rightarrow> fbm_state \<Rightarrow> py_error + fbm_state" where
  "fbm_loop_f32 f32 default_rng width height lacunarity gain seed tileable [] st = Inr st"
| "fbm_loop_f32 f32 default_rng width height lacunarity gain seed tileable (i # is) st =
     (case perlin2d_f32 f32 default_rng width height (st_scale st) (seed + 1013 * i) tileable of
        Inl e \<Rightarrow> Inl e
      | Inr n \<Rightarrow>
          (if lacunarity = 0 then Inl ZeroDivisionError
           else fbm_loop_f32 f32 default_rng width height lacunarity gain seed tileable is
                  \<lparr>st_total = accumulate_f32 f32 (st_total st) n (st_amp st),
                   st_amp = st_amp st * gain,
                   st_amp_sum = st_amp_sum st + st_amp st,
                   st_scale = st_scale st / lacunarity\<rparr>))"

text \<open>\<^verbatim>\<open>total /= (amp_sum + 1e-12)\<close> in float32, then the clip to [0, 1].\<close>

definition renormalize_f32 :: "(real \<Rightarrow> real) \<Rightarrow> field \<Rightarrow> real \<Rightarrow> field" where
  "renormalize_f32 f32 tot divisor = map (map (\<lambda>v. np_clip (f32 (v / f32 divisor)) 0 1)) tot"

definition fbm_f32 ::
  "(real \<Rightarrow> real) \<Rightarrow> rng \<Rightarrow> int \<Rightarrow> int \<Rightarrow> real \<Rightarrow> int \<Rightarrow> real \<Rightarrow> real \<Rightarrow> int \<Rightarrow> bool
     \<Rightarrow> py_error + field" where
  "fbm_f32 f32 default_rng width height base_scale octaves lacunarity gain seed tileable =
     (case np_zeros height width of Inl e \<Rightarrow> Inl e | Inr zeros \<Rightarrow>
     (case fbm_loop_f32 f32 default_rng width height lacunarity gain seed tileable
             (py_range octaves)
             \<lparr>st_total = zeros, st_amp = 1, st_amp_sum = 0, st_scale = base_scale\<rparr> of
        Inl e \<Rightarrow> Inl e
      | Inr st \<Rightarrow> Inr (renormalize_f32 f32 (st_total st) (st_amp_sum st + 1 / 10 ^ 12))))"

subsection \<open>A generator and a rounding for the examples\<close>

text \<open>
  It rejects a negative seed, as \<^verbatim>\<open>np.random.default_rng\<close> does, and draws the
  angles 0 and \<open>\<pi>\<close> in turn for every other seed.
\<close>

definition example_rng :: rng where
  "example_rng seed =
     (if seed < 0 then Inl ValueError else Inr (\<lambda>k. if even k then 0 else pi))"

text \<open>
  A rounding for the examples: to the nearest multiple of \<open>2^-23\<close>, which is the
  spacing of float32 between 1 and 2.
\<close>

definition example_f32 :: "real \<Rightarrow> real" where
  "example_f32 x = of_int (round (x * 2 ^ 23)) / 2 ^ 23"

subsection \<open>The threshold stage of main\<close>

text \<open>
  \<^verbatim>\<open>bw = (n > args.threshold).astype(np.uint8) * 255\<close>: the comparison gives a
  boolean, the cast 0 or 1 as an unsigned byte, and the product is taken in bytes.
\<close>

definition threshold_pixel :: "real \<Rightarrow> real \<Rightarrow> 8 word" where
  "threshold_pixel threshold v = (if v > threshold then 1 else 0) * 255"

definition threshold_stage :: "field \<Rightarrow> real \<Rightarrow> 8 word list list" where
  "threshold_stage n threshold = map (map (threshold_pixel threshold)) n"

text \<open>The number of pixels of a byte image that are on (255).\<close>

definition count_on :: "8 word list list \<Rightarrow> nat" where
  "count_on bw = length (filter (\<lambda>b. b = 255) (concat bw))"

subsection \<open>The padding stage of main\<close>

text \<open>\<^verbatim>\<open>h, w = n.shape\<close>; a field without rows has width 0 here.\<close>

definition shape :: "'a list list \<Rightarrow> nat \<times> nat" where
  "shape n = (length n, (case n of [] \<Rightarrow> 0 | row # _ \<Rightarrow> length row))"

text \<open>
  One axis of the mask, for an axis of \<open>w\<close> pixels: at pixel \<open>x\<close> of
  \<^verbatim>\<open>np.arange(w)\<close>, \<^verbatim>\<open>left = clip(x / padding, 0, 1)\<close>,
  \<^verbatim>\<open>right = clip((w - 1 - x) / padding, 0, 1)\<close>, and the mask is
  \<^verbatim>\<open>fade(minimum(left, right))\<close>. The division is true division of integers.
\<close>

definition axis_mask :: "nat \<Rightarrow> int \<Rightarrow> real list" where
  "axis_mask w padding =
     map (\<lambda>x. let left = np_clip (real x / of_int padding) 0 1;
                   right = np_clip (of_int (int w - 1 - int x) / of_int padding) 0 1
               in fade (min left right))
       [0..<w]"

definition np_outer :: "real list \<Rightarrow> real list \<Rightarrow> field" where
  "np_outer a b = map (\<lambda>u. map (\<lambda>v. u * v) b) a"

definition falloff_mask :: "nat \<Rightarrow> nat \<Rightarrow> int \<Rightarrow> field" where
  "falloff_mask h w padding = np_outer (axis_mask h padding) (axis_mask w padding)"

definition field_mul :: "field \<Rightarrow> field \<Rightarrow> field" where
  "field_mul a b = map2 (map2 (\<lambda>u v. u * v)) a b"

definition padding_stage :: "field \<Rightarrow> int \<Rightarrow> field" where
  "padding_stage n padding =
     (if padding > 0
      then (case shape n of (h, w) \<Rightarrow> field_mul n (falloff_mask h w padding))
      else n)"

section \<open>Helper lemmas\<close>

lemma threshold_pixel_on: "threshold_pixel t v = 255 \<longleftrightarrow> v > t"
  by (simp add: threshold_pixel_def)

lemma length_filter_mono:
  "(\<And>x. x \<in> set xs \<Longrightarrow> P x \<Longrightarrow> Q x) \<Longrightarrow> length (filter P xs) \<le> length (filter Q xs)"
  by (induction xs) auto

lemma count_on_threshold_stage:
  "count_on (threshold_stage n t) = length (filter (\<lambda>v. v > t) (concat n))"
proof -
  have "concat (threshold_stage n t) = map (threshold_pixel t) (concat n)"
    by (simp add: threshold_stage_def map_concat)
  then show ?thesis
    by (simp add: count_on_def filter_map comp_def threshold_pixel_on)
qed

subsection \<open>collect\<close>

lemma collect_Inr_iff: "collect rs = Inr vs \<longleftrightarrow> rs = map Inr vs"
proof (induction rs arbitrary: vs)
  case Nil
  then show ?case by auto
next
  case (Cons r rs)
  show ?case
  proof (cases r)
    case (Inl e)
    then show ?thesis by auto
  next
    case (Inr v)
    show ?thesis
    proof (cases "collect rs")
      case (Inl e)
      then have "\<And>ws. rs \<noteq> map Inr ws" using Cons.IH by auto
      with Inl Inr show ?thesis by auto
    next
      case r: (Inr ws)
      then have "rs = map Inr ws" using Cons.IH by simp
      with r Inr show ?thesis by auto
    qed
  qed
qed

lemma collect_map_Inr: "collect (map Inr vs) = Inr vs"
  by (simp add: collect_Inr_iff)

lemma collect_total:
  assumes "\<forall>r \<in> set rs. \<exists>v. r = Inr v"
  shows "\<exists>vs. collect rs = Inr vs \<and> length vs = length rs"
proof -
  have "rs = map Inr (map projr rs)"
    using assms by (induction rs) auto
  then have "collect rs = Inr (map projr rs)"
    by (metis collect_map_Inr)
  then show ?thesis by auto
qed

subsection \<open>amin and amax\<close>

lemma fold_min_Min: "fold min vs (v::'a::linorder) = Min (set (v # vs))"
  by (simp only: Min.set_eq_fold)

lemma fold_max_Max: "fold max vs (v::'a::linorder) = Max (set (v # vs))"
  by (simp only: Max.set_eq_fold)

lemma amin_Inr:
  assumes "amin a = Inr lo"
  shows "lo \<in> set (concat a)" and "\<forall>v \<in> set (concat a). lo \<le> v"
proof -
  obtain v vs where c: "concat a = v # vs" and lo: "lo = fold min vs v"
    using assms by (auto simp: amin_def split: list.splits)
  have "lo = Min (set (concat a))" using c lo fold_min_Min by metis
  moreover have "set (concat a) \<noteq> {}" using c by (metis list.distinct(1) set_empty)
  ultimately show "lo \<in> set (concat a)" and "\<forall>v \<in> set (concat a). lo \<le> v"
    using Min_in [of "set (concat a)"] Min_le [of "set (concat a)"] by blast+
qed

lemma amax_Inr:
  assumes "amax a = Inr hi"
  shows "hi \<in> set (concat a)" and "\<forall>v \<in> set (concat a). v \<le> hi"
proof -
  obtain v vs where c: "concat a = v # vs" and hi: "hi = fold max vs v"
    using assms by (auto simp: amax_def split: list.splits)
  have "hi = Max (set (concat a))" using c hi fold_max_Max by metis
  moreover have "set (concat a) \<noteq> {}" using c by (metis list.distinct(1) set_empty)
  ultimately show "hi \<in> set (concat a)" and "\<forall>v \<in> set (concat a). v \<le> hi"
    using Max_in [of "set (concat a)"] Max_ge [of "set (concat a)"] by blast+
qed

lemma amin_total: "concat a \<noteq> [] \<Longrightarrow> \<exists>lo. amin a = Inr lo"
  by (auto simp: amin_def split: list.splits)

lemma amax_total: "concat a \<noteq> [] \<Longrightarrow> \<exists>hi. amax a = Inr hi"
  by (auto simp: amax_def split: list.splits)

lemma amin_Inl: "amin a = Inl e \<Longrightarrow> e = ValueError \<and> concat a = []"
  by (auto simp: amin_def split: list.splits)

lemma amax_Inl: "amax a = Inl e \<Longrightarrow> e = ValueError \<and> concat a = []"
  by (auto simp: amax_def split: list.splits)

subsection \<open>minmax_normalize\<close>

lemma minmax_normalize_Inr:
  assumes "minmax_normalize nxy = Inr F"
  obtains lo hi where "amin nxy = Inr lo" "amax nxy = Inr hi"
    "F = map (map (\<lambda>v. (v - lo) / (hi - lo + 1 / 10 ^ 12))) nxy"
  using assms by (auto simp: minmax_normalize_def split: sum.splits)

lemma minmax_normalize_range:
  assumes "minmax_normalize nxy = Inr F" "row \<in> set F" "p \<in> set row"
  shows "0 \<le> p \<and> p \<le> 1"
proof -
  obtain lo hi where lo: "amin nxy = Inr lo" and hi: "amax nxy = Inr hi"
    and F: "F = map (map (\<lambda>v. (v - lo) / (hi - lo + 1 / 10 ^ 12))) nxy"
    using assms(1) by (rule minmax_normalize_Inr)
  obtain r v where r: "r \<in> set nxy" and v: "v \<in> set r"
    and p: "p = (v - lo) / (hi - lo + 1 / 10 ^ 12)"
    using assms(2,3) F by auto
  have vin: "v \<in> set (concat nxy)" using r v by auto
  have l: "lo \<le> v" using amin_Inr(2) [OF lo] vin by blast
  have h: "v \<le> hi" using amax_Inr(2) [OF hi] vin by blast
  have d: "0 < hi - lo + 1 / 10 ^ 12" using l h by (simp add: add_nonneg_pos)
  have "v - lo \<le> hi - lo + 1 / 10 ^ 12" using h by simp
  then have "p \<le> 1" using d p by (simp add: pos_divide_le_eq)
  moreover have "0 \<le> p" using l d p by simp
  ultimately show ?thesis by simp
qed

lemma minmax_normalize_total:
  assumes "concat nxy \<noteq> []"
  shows "\<exists>F. minmax_normalize nxy = Inr F \<and> length F = length nxy
           \<and> (\<forall>j < length nxy. length (F ! j) = length (nxy ! j))"
proof -
  obtain lo hi where "amin nxy = Inr lo" "amax nxy = Inr hi"
    using amin_total [OF assms] amax_total [OF assms] by auto
  then show ?thesis by (simp add: minmax_normalize_def)
qed

lemma minmax_normalize_Inl: "minmax_normalize nxy = Inl e \<Longrightarrow> e = ValueError"
  by (auto simp: minmax_normalize_def split: sum.splits dest: amin_Inl amax_Inl)

subsection \<open>The gradient lattice and its lookups\<close>

lemma length_gradient_grid: "length (gradient_grid draws gh gw) = nat gh"
  by (simp add: gradient_grid_def uniform_angles_def)

lemma length_gradient_grid_row:
  "j < nat gh \<Longrightarrow> length (gradient_grid draws gh gw ! j) = nat gw"
  by (simp add: gradient_grid_def uniform_angles_def)

lemma gradient_grid_nth:
  "j < nat gh \<Longrightarrow> i < nat gw \<Longrightarrow>
     gradient_grid draws gh gw ! j ! i
       = (cos (draws (j * nat gw + i)), sin (draws (j * nat gw + i)))"
  by (simp add: gradient_grid_def uniform_angles_def)

lemma np_index2_in_range:
  assumes "0 \<le> gj" "gj < int (length a)" "0 \<le> gi" "gi < int (length (a ! nat gj))"
  shows "np_index2 a gj gi = Inr (a ! nat gj ! nat gi)"
  using assms by (simp add: np_index2_def Let_def)

lemma gradient_lookup:
  assumes "0 \<le> gj" "gj < gh" "0 \<le> gi" "gi < gw"
  shows "np_index2 (gradient_grid draws gh gw) gj gi
           = Inr (cos (draws (nat gj * nat gw + nat gi)), sin (draws (nat gj * nat gw + nat gi)))"
proof -
  have j: "nat gj < nat gh" and i: "nat gi < nat gw" using assms by linarith+
  have "np_index2 (gradient_grid draws gh gw) gj gi
          = Inr (gradient_grid draws gh gw ! nat gj ! nat gi)"
    using assms j i
    by (intro np_index2_in_range) (simp_all add: length_gradient_grid length_gradient_grid_row)
  then show ?thesis using j i by (simp add: gradient_grid_nth)
qed

lemma tile_cells_pos: "1 \<le> tile_cells d s"
  by (simp add: tile_cells_def)

lemma grad_at_tile_total:
  assumes "1 \<le> gw" "1 \<le> gh"
  shows "grad_at_tile gw gh (gradient_grid draws gh gw) ix iy
           = Inr (cos (draws (nat (iy mod gh) * nat gw + nat (ix mod gw))),
                  sin (draws (nat (iy mod gh) * nat gw + nat (ix mod gw))))"
proof -
  have "0 \<le> ix mod gw" "ix mod gw < gw" "0 \<le> iy mod gh" "iy mod gh < gh"
    using assms by simp_all
  then show ?thesis
    by (simp add: grad_at_tile_def Let_def gradient_lookup)
qed

subsection \<open>One sample point\<close>

lemma noise_at_total:
  assumes "\<forall>c \<in> set (cell_corners x y). \<exists>g. grad_at (fst c) (snd c) = Inr g"
  shows "\<exists>v. noise_at grad_at x y = Inr v"
proof -
  obtain a b c d where "grad_at \<lfloor>x\<rfloor> \<lfloor>y\<rfloor> = Inr a" "grad_at (\<lfloor>x\<rfloor> + 1) \<lfloor>y\<rfloor> = Inr b"
    "grad_at \<lfloor>x\<rfloor> (\<lfloor>y\<rfloor> + 1) = Inr c" "grad_at (\<lfloor>x\<rfloor> + 1) (\<lfloor>y\<rfloor> + 1) = Inr d"
    using assms by (fastforce simp: cell_corners_def Let_def)
  then show ?thesis
    by (cases a; cases b; cases c; cases d) (simp add: noise_at_def Let_def)
qed

lemma noise_at_Inl:
  assumes "noise_at grad_at x y = Inl e"
  shows "\<exists>c \<in> set (cell_corners x y). grad_at (fst c) (snd c) = Inl e"
  using assms
  by (auto simp: noise_at_def cell_corners_def Let_def split: sum.splits prod.splits)

subsection \<open>The sample grid\<close>

lemma set_concat_grid_of:
  "set (concat (grid_of xs ys f)) = {f x y | x y. x \<in> set xs \<and> y \<in> set ys}"
  by (auto simp: grid_of_def)

lemma concat_grid_of_nonempty:
  "xs \<noteq> [] \<Longrightarrow> ys \<noteq> [] \<Longrightarrow> concat (grid_of xs ys f) \<noteq> []"
  by (cases xs; cases ys) (simp_all add: grid_of_def)

lemma concat_grid_of_empty:
  "xs = [] \<or> ys = [] \<Longrightarrow> concat (grid_of xs ys f) = []"
  by (auto simp: grid_of_def)

lemma collect_grid:
  assumes "\<forall>x \<in> set xs. \<forall>y \<in> set ys. \<exists>v. f x y = Inr v"
  shows "collect (map collect (grid_of xs ys f))
           = Inr (grid_of xs ys (\<lambda>x y. projr (f x y)))"
proof -
  have row: "collect (map (\<lambda>x. f x y) xs) = Inr (map (\<lambda>x. projr (f x y)) xs)"
    if "y \<in> set ys" for y
  proof -
    have "map (\<lambda>x. f x y) xs = map Inr (map (\<lambda>x. projr (f x y)) xs)"
      using assms that by fastforce
    then show ?thesis by (simp only: collect_map_Inr)
  qed
  have "map collect (grid_of xs ys f)
          = map Inr (grid_of xs ys (\<lambda>x y. projr (f x y)))"
    using row by (simp add: grid_of_def)
  then show ?thesis by (simp only: collect_map_Inr)
qed

lemma length_grid_of: "length (grid_of xs ys f) = length ys"
  by (simp add: grid_of_def)

lemma length_grid_of_row: "j < length ys \<Longrightarrow> length (grid_of xs ys f ! j) = length xs"
  by (simp add: grid_of_def)

lemma length_linspace: "linspace stop num = Inr xs \<Longrightarrow> length xs = nat num"
  by (auto simp: linspace_def split: if_splits)

lemma linspace_Inl: "linspace stop num = Inl e \<Longrightarrow> e = ValueError \<and> num < 0"
  by (auto simp: linspace_def split: if_splits)

lemma linspace_total: "0 \<le> num \<Longrightarrow> \<exists>xs. linspace stop num = Inr xs \<and> length xs = nat num"
  by (simp add: linspace_def)

subsection \<open>interpolate\<close>

lemma amin_empty: "concat a = [] \<Longrightarrow> amin a = Inl ValueError"
  by (simp only: amin_def list.case)

lemma interpolate_range:
  assumes "interpolate grad_at xs ys = Inr F" "row \<in> set F" "p \<in> set row"
  shows "0 \<le> p \<and> p \<le> 1"
proof -
  obtain nxy where "minmax_normalize nxy = Inr F"
    using assms(1) by (auto simp: interpolate_def split: sum.splits)
  then show ?thesis using assms(2,3) by (rule minmax_normalize_range)
qed

lemma interpolate_total:
  assumes "xs \<noteq> []" "ys \<noteq> []"
    and "\<forall>x \<in> set xs. \<forall>y \<in> set ys. \<forall>c \<in> set (cell_corners x y).
           \<exists>g. grad_at (fst c) (snd c) = Inr g"
  shows "\<exists>F. interpolate grad_at xs ys = Inr F \<and> length F = length ys
           \<and> (\<forall>j < length ys. length (F ! j) = length xs)"
proof -
  let ?nxy = "grid_of xs ys (\<lambda>x y. projr (noise_at grad_at x y))"
  have "\<forall>x \<in> set xs. \<forall>y \<in> set ys. \<exists>v. noise_at grad_at x y = Inr v"
    using assms(3) noise_at_total by blast
  then have c: "collect (map collect (grid_of xs ys (noise_at grad_at))) = Inr ?nxy"
    by (rule collect_grid)
  have "concat ?nxy \<noteq> []" using assms(1,2) by (rule concat_grid_of_nonempty)
  then obtain F where "minmax_normalize ?nxy = Inr F" "length F = length ?nxy"
    "\<forall>j < length ?nxy. length (F ! j) = length (?nxy ! j)"
    using minmax_normalize_total by blast
  then show ?thesis using c
    by (simp add: interpolate_def length_grid_of length_grid_of_row)
qed

lemma interpolate_empty:
  assumes "xs = [] \<or> ys = []"
  shows "interpolate grad_at xs ys = Inl ValueError"
proof -
  let ?nxy = "grid_of xs ys (\<lambda>x y. projr (noise_at grad_at x y))"
  have "\<forall>x \<in> set xs. \<forall>y \<in> set ys. \<exists>v. noise_at grad_at x y = Inr v"
    using assms by auto
  then have c: "collect (map collect (grid_of xs ys (noise_at grad_at))) = Inr ?nxy"
    by (rule collect_grid)
  have "concat ?nxy = []" using assms by (rule concat_grid_of_empty)
  then have "amin ?nxy = Inl ValueError" by (rule amin_empty)
  then have "minmax_normalize ?nxy = Inl ValueError"
    by (simp add: minmax_normalize_def)
  then show ?thesis using c by (simp add: interpolate_def)
qed

subsection \<open>The bounding box of non-tileable mode\<close>

lemma box_bounds_empty:
  assumes "xs = [] \<or> ys = []"
  shows "box_bounds xs ys = Inl ValueError"
proof -
  have "concat (grid_of xs ys (\<lambda>x y. \<lfloor>x\<rfloor>)) = []" using assms by (rule concat_grid_of_empty)
  then have "amin (grid_of xs ys (\<lambda>x y. \<lfloor>x\<rfloor>)) = Inl ValueError" by (rule amin_empty)
  then show ?thesis by (simp add: box_bounds_def Let_def)
qed

lemma box_bounds_Inl: "box_bounds xs ys = Inl e \<Longrightarrow> e = ValueError"
  by (auto simp: box_bounds_def Let_def split: sum.splits dest: amin_Inl amax_Inl)

lemma concat_map_map: "concat (map (map f) a) = map f (concat a)"
  by (simp add: map_concat)

lemma box_bounds_Inr:
  assumes "box_bounds xs ys = Inr (gx_min, gx_max, gy_min, gy_max)"
    and "x \<in> set xs" "y \<in> set ys"
  shows "gx_min \<le> \<lfloor>x\<rfloor> \<and> \<lfloor>x\<rfloor> + 1 \<le> gx_max \<and> gy_min \<le> \<lfloor>y\<rfloor> \<and> \<lfloor>y\<rfloor> + 1 \<le> gy_max"
proof -
  let ?x0 = "grid_of xs ys (\<lambda>x y. \<lfloor>x\<rfloor>)" and ?y0 = "grid_of xs ys (\<lambda>x y. \<lfloor>y\<rfloor>)"
  have b: "amin ?x0 = Inr gx_min" "amax (map (map (\<lambda>v. v + 1)) ?x0) = Inr gx_max"
    "amin ?y0 = Inr gy_min" "amax (map (map (\<lambda>v. v + 1)) ?y0) = Inr gy_max"
    using assms(1) by (auto simp: box_bounds_def Let_def split: sum.splits)
  have x0: "\<lfloor>x\<rfloor> \<in> set (concat ?x0)" and y0: "\<lfloor>y\<rfloor> \<in> set (concat ?y0)"
    using assms(2,3) unfolding set_concat_grid_of by blast+
  have x1: "\<lfloor>x\<rfloor> + 1 \<in> set (concat (map (map (\<lambda>v. v + 1)) ?x0))"
    and y1: "\<lfloor>y\<rfloor> + 1 \<in> set (concat (map (map (\<lambda>v. v + 1)) ?y0))"
    using x0 y0 by (simp_all only: concat_map_map set_map image_eqI)
  show ?thesis
    using amin_Inr(2) [OF b(1)] amax_Inr(2) [OF b(2)] amin_Inr(2) [OF b(3)]
      amax_Inr(2) [OF b(4)] x0 x1 y0 y1
    by blast
qed

lemma box_bounds_total:
  assumes "xs \<noteq> []" "ys \<noteq> []"
  shows "\<exists>b. box_bounds xs ys = Inr b"
proof -
  have ne: "concat (grid_of xs ys f) \<noteq> []" for f :: "real \<Rightarrow> real \<Rightarrow> int"
    using assms by (rule concat_grid_of_nonempty)
  have ne1: "concat (map (map (\<lambda>v. v + 1)) (grid_of xs ys f)) \<noteq> []"
    for f :: "real \<Rightarrow> real \<Rightarrow> int"
    using ne [of f] by (simp only: concat_map_map map_is_Nil_conv not_False_eq_True)
  obtain a where a: "amin (grid_of xs ys (\<lambda>x y. \<lfloor>x\<rfloor>)) = Inr a"
    using amin_total [OF ne] by blast
  obtain b where b: "amax (map (map (\<lambda>v. v + 1)) (grid_of xs ys (\<lambda>x y. \<lfloor>x\<rfloor>))) = Inr b"
    using amax_total [OF ne1] by blast
  obtain c where c: "amin (grid_of xs ys (\<lambda>x y. \<lfloor>y\<rfloor>)) = Inr c"
    using amin_total [OF ne] by blast
  obtain d where d: "amax (map (map (\<lambda>v. v + 1)) (grid_of xs ys (\<lambda>x y. \<lfloor>y\<rfloor>))) = Inr d"
    using amax_total [OF ne1] by blast
  show ?thesis using a b c d by (simp add: box_bounds_def Let_def)
qed

lemma grad_at_box_total:
  assumes "box_bounds xs ys = Inr (gx_min, gx_max, gy_min, gy_max)"
    and "x \<in> set xs" "y \<in> set ys" "c \<in> set (cell_corners x y)"
  shows "0 \<le> fst c - gx_min \<and> fst c - gx_min < gx_max - gx_min + 1
       \<and> 0 \<le> snd c - gy_min \<and> snd c - gy_min < gy_max - gy_min + 1
       \<and> (\<exists>g. grad_at_box gx_min gy_min
                 (gradient_grid draws (gy_max - gy_min + 1) (gx_max - gx_min + 1))
                 (fst c) (snd c) = Inr g)"
proof -
  have b: "gx_min \<le> \<lfloor>x\<rfloor> \<and> \<lfloor>x\<rfloor> + 1 \<le> gx_max \<and> gy_min \<le> \<lfloor>y\<rfloor> \<and> \<lfloor>y\<rfloor> + 1 \<le> gy_max"
    using assms(1,2,3) by (rule box_bounds_Inr)
  have c: "(fst c = \<lfloor>x\<rfloor> \<or> fst c = \<lfloor>x\<rfloor> + 1) \<and> (snd c = \<lfloor>y\<rfloor> \<or> snd c = \<lfloor>y\<rfloor> + 1)"
    using assms(4) by (auto simp: cell_corners_def Let_def)
  have r: "0 \<le> fst c - gx_min" "fst c - gx_min < gx_max - gx_min + 1"
    "0 \<le> snd c - gy_min" "snd c - gy_min < gy_max - gy_min + 1"
    using b c by linarith+
  have "\<exists>g. np_index2 (gradient_grid draws (gy_max - gy_min + 1) (gx_max - gx_min + 1))
          (snd c - gy_min) (fst c - gx_min) = Inr g"
    using gradient_lookup [OF r(3,4,1,2)] by blast
  then show ?thesis using r by (simp add: grad_at_box_def Let_def)
qed

subsection \<open>perlin2d\<close>

lemma perlin2d_range:
  assumes "perlin2d default_rng width height scale seed tileable = Inr F"
    "row \<in> set F" "p \<in> set row"
  shows "0 \<le> p \<and> p \<le> 1"
proof -
  obtain grad_at xs ys where "interpolate grad_at xs ys = Inr F"
    using assms(1)
    by (auto simp: perlin2d_def Let_def split: if_splits sum.splits prod.splits)
  then show ?thesis using assms(2,3) by (rule interpolate_range)
qed

lemma linspace_nonempty: "1 \<le> num \<Longrightarrow> linspace stop num = Inr xs \<Longrightarrow> xs \<noteq> []"
  by (auto simp: linspace_def split: if_splits)

lemma perlin2d_total:
  assumes "1 \<le> width" "1 \<le> height" "0 < scale" "default_rng seed = Inr draws"
  shows "\<exists>F. perlin2d default_rng width height scale seed tileable = Inr F
           \<and> length F = nat height \<and> (\<forall>j < nat height. length (F ! j) = nat width)"
proof -
  show ?thesis
  proof (cases tileable)
    case True
    let ?gw = "tile_cells width scale" and ?gh = "tile_cells height scale"
    obtain xs where xs: "linspace (of_int ?gw) width = Inr xs" "length xs = nat width"
      using linspace_total [of width] assms(1) by fastforce
    obtain ys where ys: "linspace (of_int ?gh) height = Inr ys" "length ys = nat height"
      using linspace_total [of height] assms(2) by fastforce
    have ne: "xs \<noteq> []" "ys \<noteq> []" using xs ys assms(1,2) by auto
    have "\<forall>x \<in> set xs. \<forall>y \<in> set ys. \<forall>c \<in> set (cell_corners x y).
            \<exists>g. grad_at_tile ?gw ?gh (gradient_grid draws ?gh ?gw) (fst c) (snd c) = Inr g"
      by (simp add: grad_at_tile_total tile_cells_pos)
    from interpolate_total [OF ne this] obtain F where
      "interpolate (grad_at_tile ?gw ?gh (gradient_grid draws ?gh ?gw)) xs ys = Inr F"
      "length F = length ys" "\<forall>j < length ys. length (F ! j) = length xs"
      by blast
    then show ?thesis using True assms(3,4) xs ys
      by (simp add: perlin2d_def Let_def)
  next
    case False
    obtain xs where xs: "linspace (of_int width / scale) width = Inr xs" "length xs = nat width"
      using linspace_total [of width] assms(1) by fastforce
    obtain ys where ys: "linspace (of_int height / scale) height = Inr ys"
      "length ys = nat height"
      using linspace_total [of height] assms(2) by fastforce
    have ne: "xs \<noteq> []" "ys \<noteq> []" using xs ys assms(1,2) by auto
    obtain gx_min gx_max gy_min gy_max where
      b: "box_bounds xs ys = Inr (gx_min, gx_max, gy_min, gy_max)"
      using box_bounds_total [OF ne] by (metis prod_cases4)
    let ?g = "grad_at_box gx_min gy_min
                (gradient_grid draws (gy_max - gy_min + 1) (gx_max - gx_min + 1))"
    have "\<forall>x \<in> set xs. \<forall>y \<in> set ys. \<forall>c \<in> set (cell_corners x y).
            \<exists>g. ?g (fst c) (snd c) = Inr g"
      using grad_at_box_total [OF b] by blast
    from interpolate_total [OF ne this] obtain F where
      "interpolate ?g xs ys = Inr F"
      "length F = length ys" "\<forall>j < length ys. length (F ! j) = length xs"
      by blast
    then show ?thesis using False assms(3,4) xs ys b
      by (simp add: perlin2d_def Let_def)
  qed
qed

lemma perlin2d_scale_invalid:
  "scale \<le> 0 \<Longrightarrow> perlin2d default_rng width height scale seed tileable = Inl ValueError"
  by (simp add: perlin2d_def)

lemma linspace_empty: "linspace stop num = Inr xs \<Longrightarrow> num \<le> 0 \<Longrightarrow> xs = []"
  by (auto simp: linspace_def split: if_splits)

lemma perlin2d_dimension_invalid:
  assumes "width \<le> 0 \<or> height \<le> 0" "default_rng seed = Inr draws"
  shows "perlin2d default_rng width height scale seed tileable = Inl ValueError"
proof (cases "scale \<le> 0")
  case True
  then show ?thesis by (rule perlin2d_scale_invalid)
next
  case False
  have e: "xs = [] \<or> ys = []"
    if "linspace a width = Inr xs" "linspace b height = Inr ys" for a b xs ys
    using that assms(1) linspace_empty by blast
  show ?thesis
  proof (cases tileable)
    case True
    show ?thesis using False True assms(2)
      by (auto simp: perlin2d_def Let_def split: sum.splits
            dest: linspace_Inl dest!: e intro!: interpolate_empty)
  next
    case f: False
    show ?thesis using False f assms(2)
      by (auto simp: perlin2d_def Let_def box_bounds_empty split: sum.splits
            dest: linspace_Inl dest!: e)
  qed
qed

lemma perlin2d_rng_error:
  "0 < scale \<Longrightarrow> default_rng seed = Inl e
     \<Longrightarrow> perlin2d default_rng width height scale seed tileable = Inl e"
  by (simp add: perlin2d_def)

subsection \<open>fbm\<close>

lemma np_clip_unit: "0 \<le> np_clip v 0 1 \<and> np_clip v 0 1 \<le> 1"
  by (simp add: np_clip_def)

lemma np_clip_id: "0 \<le> v \<Longrightarrow> v \<le> 1 \<Longrightarrow> np_clip v 0 1 = v"
  by (simp add: np_clip_def)

lemma in_unit_interval_iff:
  "in_unit_interval F \<longleftrightarrow> (\<forall>row \<in> set F. \<forall>p \<in> set row. 0 \<le> p \<and> p \<le> 1)"
  by (simp add: in_unit_interval_def list_all_iff)

lemma renormalize_unit: "in_unit_interval (renormalize tot d)"
  by (simp add: in_unit_interval_iff renormalize_def np_clip_unit)

lemma fbm_range:
  assumes "fbm default_rng width height base_scale octaves lacunarity gain seed tileable = Inr G"
  shows "in_unit_interval G"
  using assms by (auto simp: fbm_def renormalize_unit split: sum.splits)

lemma perlin2d_unit:
  "perlin2d default_rng width height s seed tileable = Inr F \<Longrightarrow> in_unit_interval F"
  unfolding in_unit_interval_iff using perlin2d_range by blast

lemma upt_add_Suc: "[k..<Suc (k + m)] = k # [Suc k..<Suc (k + m)]"
  by (simp add: upt_rec)

lemma octave_amp_0: "octave_amp gain 0 = 1"
  by (simp add: octave_amp_def)

lemma octave_scale_0: "octave_scale base_scale lacunarity 0 = base_scale"
  by (simp add: octave_scale_def)

lemma fbm_loop_closed:
  assumes "lacunarity \<noteq> 0"
  shows "fbm_loop default_rng width height lacunarity gain seed tileable (map int [k..<k + m])
           \<lparr>st_total = tot, st_amp = octave_amp gain k, st_amp_sum = S,
            st_scale = octave_scale base_scale lacunarity k\<rparr>
         = (case collect (map (octave_noise default_rng width height base_scale lacunarity seed
                                 tileable) [k..<k + m]) of
              Inl e \<Rightarrow> Inl e
            | Inr ns \<Rightarrow>
                Inr \<lparr>st_total = weighted_sum tot (zip ns (map (octave_amp gain) [k..<k + m])),
                     st_amp = octave_amp gain (k + m),
                     st_amp_sum = S + sum_list (map (octave_amp gain) [k..<k + m]),
                     st_scale = octave_scale base_scale lacunarity (k + m)\<rparr>)"
proof (induction m arbitrary: k tot S)
  case 0
  show ?case by (simp add: weighted_sum_def)
next
  case (Suc m)
  have amp: "octave_amp gain k * gain = octave_amp gain (Suc k)"
    by (simp add: octave_amp_def)
  have sc: "octave_scale base_scale lacunarity k / lacunarity
              = octave_scale base_scale lacunarity (Suc k)"
    by (simp add: octave_scale_def)
  show ?case
  proof (cases "octave_noise default_rng width height base_scale lacunarity seed tileable k")
    case (Inl e)
    then show ?thesis
      by (simp add: upt_add_Suc octave_noise_def octave_seed_def del: upt_Suc)
  next
    case (Inr n)
    show ?thesis
      using Inr assms Suc.IH [of "Suc k" "accumulate tot n (octave_amp gain k)"
          "S + octave_amp gain k"]
      by (simp add: upt_add_Suc octave_noise_def octave_seed_def amp sc weighted_sum_def
            add.assoc del: upt_Suc
            split: sum.splits)
  qed
qed

lemma fbm_closed:
  assumes "lacunarity \<noteq> 0"
  shows "fbm default_rng width height base_scale octaves lacunarity gain seed tileable
         = fbm_by_octaves (1 / 10 ^ 12) default_rng width height base_scale octaves lacunarity
             gain seed tileable"
proof -
  have "fbm_loop default_rng width height lacunarity gain seed tileable (py_range octaves)
           \<lparr>st_total = zeros, st_amp = 1, st_amp_sum = 0, st_scale = base_scale\<rparr>
         = (case collect (map (octave_noise default_rng width height base_scale lacunarity seed
                                 tileable) [0..<nat octaves]) of
              Inl e \<Rightarrow> Inl e
            | Inr ns \<Rightarrow>
                Inr \<lparr>st_total = weighted_sum zeros (zip ns (map (octave_amp gain) [0..<nat octaves])),
                     st_amp = octave_amp gain (nat octaves),
                     st_amp_sum = sum_list (map (octave_amp gain) [0..<nat octaves]),
                     st_scale = octave_scale base_scale lacunarity (nat octaves)\<rparr>)"
    for zeros
  proof -
    have "fbm_loop default_rng width height lacunarity gain seed tileable
            (map int [0..<0 + nat octaves])
            \<lparr>st_total = zeros, st_amp = octave_amp gain 0, st_amp_sum = 0,
             st_scale = octave_scale base_scale lacunarity 0\<rparr>
          = (case collect (map (octave_noise default_rng width height base_scale lacunarity
                                  seed tileable) [0..<0 + nat octaves]) of
               Inl e \<Rightarrow> Inl e
             | Inr ns \<Rightarrow>
                 Inr \<lparr>st_total = weighted_sum zeros
                                   (zip ns (map (octave_amp gain) [0..<0 + nat octaves])),
                      st_amp = octave_amp gain (0 + nat octaves),
                      st_amp_sum = 0 + sum_list (map (octave_amp gain) [0..<0 + nat octaves]),
                      st_scale = octave_scale base_scale lacunarity (0 + nat octaves)\<rparr>)"
      by (rule fbm_loop_closed [OF assms])
    then show ?thesis
      unfolding add_0 octave_amp_0 octave_scale_0 py_range_def .
  qed
  then show ?thesis
    by (simp add: fbm_def fbm_by_octaves_def split: sum.splits)
qed

lemma fbm_lacunarity_zero:
  assumes "1 \<le> octaves"
  shows "\<exists>e. fbm default_rng width height base_scale octaves 0 gain seed tileable = Inl e"
proof -
  obtain n where "nat octaves = Suc n" using assms by (cases "nat octaves") auto
  then have "py_range octaves = 0 # map int [1..<Suc n]"
    by (simp add: py_range_def upt_rec)
  then show ?thesis
    by (simp add: fbm_def split: sum.splits)
qed

subsection \<open>Shapes\<close>

lemma has_shape_iff:
  "has_shape a h w \<longleftrightarrow> length a = h \<and> (\<forall>j < h. length (a ! j) = w)"
  by (auto simp: has_shape_def list_all_length)

lemma has_shape_zeros:
  "0 \<le> height \<Longrightarrow> 0 \<le> width \<Longrightarrow> np_zeros height width = Inr zeros
     \<Longrightarrow> has_shape zeros (nat height) (nat width)"
  by (auto simp: np_zeros_def has_shape_iff split: if_splits)

lemma has_shape_accumulate:
  "has_shape tot h w \<Longrightarrow> has_shape n h w \<Longrightarrow> has_shape (accumulate tot n a) h w"
  by (simp add: has_shape_iff accumulate_def)

lemma has_shape_weighted_sum:
  "has_shape tot h w \<Longrightarrow> \<forall>t \<in> set terms. has_shape (fst t) h w
     \<Longrightarrow> has_shape (weighted_sum tot terms) h w"
proof (induction terms arbitrary: tot)
  case Nil
  then show ?case by (simp add: weighted_sum_def)
next
  case (Cons t terms)
  have "has_shape (accumulate tot (fst t) (snd t)) h w"
    using Cons.prems by (simp add: has_shape_accumulate)
  then have "has_shape (weighted_sum (accumulate tot (fst t) (snd t)) terms) h w"
    using Cons.IH Cons.prems(2) by simp
  then show ?case by (simp add: weighted_sum_def case_prod_beta)
qed

lemma has_shape_renormalize:
  "has_shape tot h w \<Longrightarrow> has_shape (renormalize tot d) h w"
  by (simp add: has_shape_iff renormalize_def)

lemma perlin2d_shape:
  assumes "1 \<le> width" "1 \<le> height" "0 < s" "default_rng seed = Inr draws"
  shows "\<exists>F. perlin2d default_rng width height s seed tileable = Inr F
           \<and> has_shape F (nat height) (nat width)"
  using perlin2d_total [of width height s default_rng seed draws tileable] assms
  unfolding has_shape_iff by blast

lemma fbm_total:
  assumes "1 \<le> width" "1 \<le> height" "0 < base_scale" "0 < lacunarity"
    and seeds: "\<forall>i < nat octaves. \<exists>draws. default_rng (octave_seed seed i) = Inr draws"
  shows "\<exists>G. fbm default_rng width height base_scale octaves lacunarity gain seed tileable = Inr G
           \<and> has_shape G (nat height) (nat width)"
proof -
  let ?oct = "octave_noise default_rng width height base_scale lacunarity seed tileable"
  obtain zeros where z: "np_zeros height width = Inr zeros"
    "has_shape zeros (nat height) (nat width)"
    using assms(1,2) has_shape_zeros [of height width] by (simp add: np_zeros_def)
  have oct: "\<exists>F. ?oct i = Inr F \<and> has_shape F (nat height) (nat width)"
    if lt: "i < nat octaves" for i
  proof -
    have p: "0 < octave_scale base_scale lacunarity i"
      using assms(3,4) by (simp add: octave_scale_def)
    obtain draws where d: "default_rng (octave_seed seed i) = Inr draws"
      using seeds lt by blast
    show ?thesis
      unfolding octave_noise_def
      using perlin2d_shape [of width height "octave_scale base_scale lacunarity i" default_rng
          "octave_seed seed i" draws tileable] assms(1,2) p d
      by blast
  qed
  then have "\<forall>r \<in> set (map ?oct [0..<nat octaves]). \<exists>v. r = Inr v" by fastforce
  then obtain ns where ns: "collect (map ?oct [0..<nat octaves]) = Inr ns"
    using collect_total by blast
  then have m: "map ?oct [0..<nat octaves] = map Inr ns" by (simp only: collect_Inr_iff)
  have "has_shape F (nat height) (nat width)" if "F \<in> set ns" for F
  proof -
    have "Inr F \<in> set (map ?oct [0..<nat octaves])" using that m by simp
    then obtain i where "i < nat octaves" "?oct i = Inr F" by auto
    then show ?thesis using oct by fastforce
  qed
  then have "\<forall>t \<in> set (zip ns (map (octave_amp gain) [0..<nat octaves])).
               has_shape (fst t) (nat height) (nat width)"
    by (auto dest: set_zip_leftD)
  then have "has_shape (weighted_sum zeros (zip ns (map (octave_amp gain) [0..<nat octaves])))
               (nat height) (nat width)"
    using z(2) has_shape_weighted_sum by blast
  then show ?thesis
    using z(1) ns assms(4)
    by (simp add: fbm_closed fbm_by_octaves_def has_shape_renormalize)
qed

lemma perlin2d_tileable:
  assumes "0 < s" "0 \<le> width" "0 \<le> height" "default_rng seed = Inr draws"
  shows "\<exists>xs ys. linspace (of_int (tile_cells width s)) width = Inr xs
           \<and> linspace (of_int (tile_cells height s)) height = Inr ys
           \<and> perlin2d default_rng width height s seed True
               = interpolate
                   (grad_at_tile (tile_cells width s) (tile_cells height s)
                      (gradient_grid draws (tile_cells height s) (tile_cells width s)))
                   xs ys"
proof -
  obtain xs where xs: "linspace (of_int (tile_cells width s)) width = Inr xs"
    using linspace_total [OF assms(2)] by blast
  obtain ys where ys: "linspace (of_int (tile_cells height s)) height = Inr ys"
    using linspace_total [OF assms(3)] by blast
  show ?thesis using assms(1,4) xs ys by (simp add: perlin2d_def Let_def)
qed

lemma perlin2d_box:
  assumes "0 < s" "default_rng seed = Inr draws"
    "linspace (of_int width / s) width = Inr xs" "linspace (of_int height / s) height = Inr ys"
    "box_bounds xs ys = Inr (gx_min, gx_max, gy_min, gy_max)"
  shows "perlin2d default_rng width height s seed False
           = interpolate
               (grad_at_box gx_min gy_min
                  (gradient_grid draws (gy_max - gy_min + 1) (gx_max - gx_min + 1)))
               xs ys"
  using assms by (simp add: perlin2d_def Let_def)

subsection \<open>Invalid parameters\<close>

lemma perlin2d_Inr_rng:
  "perlin2d default_rng width height s seed tileable = Inr F
     \<Longrightarrow> \<exists>draws. default_rng seed = Inr draws"
  by (auto simp: perlin2d_def split: if_splits sum.splits)

lemma perlin2d_invalid:
  assumes "s \<le> 0 \<or> width \<le> 0 \<or> height \<le> 0"
  shows "\<exists>e. perlin2d default_rng width height s seed tileable = Inl e"
proof (cases "s \<le> 0")
  case True
  then show ?thesis by (simp add: perlin2d_scale_invalid)
next
  case False
  then have d: "width \<le> 0 \<or> height \<le> 0" using assms by simp
  show ?thesis
  proof (cases "default_rng seed")
    case (Inl e)
    then show ?thesis using False by (simp add: perlin2d_rng_error)
  next
    case (Inr draws)
    then show ?thesis using perlin2d_dimension_invalid [OF d] by blast
  qed
qed

lemma py_range_Cons: "1 \<le> octaves \<Longrightarrow> \<exists>is. py_range octaves = 0 # is"
proof -
  assume "1 \<le> octaves"
  then obtain n where "nat octaves = Suc n" by (cases "nat octaves") auto
  then have "py_range octaves = 0 # map int [1..<Suc n]"
    by (simp add: py_range_def upt_rec)
  then show ?thesis by blast
qed

lemma fbm_invalid:
  assumes "1 \<le> octaves" "base_scale \<le> 0 \<or> width \<le> 0 \<or> height \<le> 0"
  shows "\<exists>e. fbm default_rng width height base_scale octaves lacunarity gain seed tileable
           = Inl e"
proof -
  obtain "is" where r: "py_range octaves = 0 # is" using py_range_Cons [OF assms(1)] by blast
  obtain e where "perlin2d default_rng width height base_scale seed tileable = Inl e"
    using perlin2d_invalid [OF assms(2)] by blast
  then show ?thesis
    by (simp add: fbm_def r split: sum.splits)
qed

lemma py_range_empty: "octaves < 1 \<Longrightarrow> py_range octaves = []"
  by (simp add: py_range_def)

lemma renormalize_zeros:
  "0 < d \<Longrightarrow> renormalize (replicate h (replicate w 0)) d = replicate h (replicate w 0)"
  by (simp add: renormalize_def np_clip_def)

lemma fbm_no_octaves:
  assumes "octaves < 1" "0 \<le> width" "0 \<le> height"
  shows "fbm default_rng width height base_scale octaves lacunarity gain seed tileable
           = Inr (replicate (nat height) (replicate (nat width) 0))"
  using assms by (simp add: fbm_def np_zeros_def py_range_empty renormalize_zeros)

subsection \<open>A single octave\<close>

lemma map2_replicate_left:
  "length ys = k \<Longrightarrow> map2 f (replicate k x) ys = map (f x) ys"
proof (induction ys arbitrary: k)
  case Nil
  then show ?case by simp
next
  case (Cons y ys)
  then obtain k' where "k = Suc k'" "length ys = k'" by auto
  then show ?case using Cons.IH by simp
qed

lemma accumulate_f32_zeros:
  assumes "has_shape n h w"
  shows "accumulate_f32 f32 (replicate h (replicate w 0)) n a
           = map (map (\<lambda>v. f32 (0 + f32 (v * f32 a)))) n"
proof -
  have l: "length n = h" and rows: "\<forall>row \<in> set n. length row = w"
    using assms by (simp_all add: has_shape_def list_all_iff)
  have "accumulate_f32 f32 (replicate h (replicate w 0)) n a
          = map (\<lambda>row. map2 (\<lambda>t v. f32 (t + f32 (v * f32 a))) (replicate w 0) row) n"
    unfolding accumulate_f32_def using l by (rule map2_replicate_left)
  also have "\<dots> = map (map (\<lambda>v. f32 (0 + f32 (v * f32 a)))) n"
  proof (rule map_cong [OF refl])
    fix row assume "row \<in> set n"
    then have "length row = w" using rows by blast
    then show "map2 (\<lambda>t v. f32 (t + f32 (v * f32 a))) (replicate w 0) row
                 = map (\<lambda>v. f32 (0 + f32 (v * f32 a))) row"
      by (rule map2_replicate_left)
  qed
  finally show ?thesis .
qed

lemma single_octave_f32:
  assumes "1 \<le> width" "1 \<le> height" "0 < base_scale" "lacunarity \<noteq> 0"
    and idem: "\<forall>x. f32 (f32 x) = f32 x"
    and mono: "\<forall>x y. x \<le> y \<longrightarrow> f32 x \<le> f32 y"
    and zero: "f32 0 = 0"
    and near: "\<forall>x. 1 - 1 / 2 ^ 25 \<le> x \<and> x < 1 + 1 / 2 ^ 24 \<longrightarrow> f32 x = 1"
  shows "fbm_f32 f32 default_rng width height base_scale 1 lacunarity gain seed tileable
           = perlin2d_f32 f32 default_rng width height base_scale seed tileable"
proof -
  have one: "f32 1 = 1" using near by simp
  have guard: "f32 (1 + 1 / 10 ^ 12) = 1" using near by simp
  have z: "np_zeros height width = Inr (replicate (nat height) (replicate (nat width) 0))"
    using assms(1,2) by (simp add: np_zeros_def)
  have r: "py_range 1 = [0]" by (simp add: py_range_def)
  show ?thesis
  proof (cases "perlin2d default_rng width height base_scale seed tileable")
    case (Inl e)
    then show ?thesis by (simp add: fbm_f32_def perlin2d_f32_def z r)
  next
    case (Inr F)
    let ?N = "map (map f32) F"
    obtain draws where "default_rng seed = Inr draws"
      using Inr perlin2d_Inr_rng by blast
    then have "has_shape F (nat height) (nat width)"
      using perlin2d_shape [of width height base_scale default_rng seed draws tileable]
        assms(1,2,3) Inr
      by auto
    then have sh: "has_shape ?N (nat height) (nat width)"
      by (simp add: has_shape_iff)
    have u: "in_unit_interval F" using Inr by (rule perlin2d_unit)
    have pix: "f32 (f32 v) = v \<and> 0 \<le> v \<and> v \<le> 1"
      if rw: "row \<in> set ?N" and vr: "v \<in> set row" for row v
    proof -
      obtain q where q: "v = f32 q" "0 \<le> q" "q \<le> 1"
        using rw vr u by (auto simp: in_unit_interval_iff)
      have "f32 0 \<le> f32 q" "f32 q \<le> f32 1" using mono q(2,3) by blast+
      then show ?thesis using q(1) idem zero one by simp
    qed
    have acc: "accumulate_f32 f32 (replicate (nat height) (replicate (nat width) 0)) ?N 1 = ?N"
    proof -
      have "map (map (\<lambda>v. f32 (0 + f32 (v * f32 1)))) ?N = map (map (\<lambda>v. v)) ?N"
      proof (intro map_cong refl)
        fix row v assume "row \<in> set ?N" "v \<in> set row"
        then have "f32 (f32 v) = v" using pix by blast
        then show "f32 (0 + f32 (v * f32 1)) = v" by (simp add: one)
      qed
      then show ?thesis by (simp add: accumulate_f32_zeros [OF sh])
    qed
    have ren: "renormalize_f32 f32 ?N (1 + 1 / 10 ^ 12) = ?N"
    proof -
      have "map (map (\<lambda>v. np_clip (f32 (v / f32 (1 + 1 / 10 ^ 12))) 0 1)) ?N
              = map (map (\<lambda>v. v)) ?N"
      proof (intro map_cong refl)
        fix row v assume "row \<in> set ?N" "v \<in> set row"
        then have v: "f32 (f32 v) = v \<and> 0 \<le> v \<and> v \<le> 1" by (rule pix)
        then have fv: "f32 v = v" using idem by metis
        show "np_clip (f32 (v / f32 (1 + 1 / 10 ^ 12))) 0 1 = v"
          unfolding guard using v fv by (simp add: np_clip_id)
      qed
      then show ?thesis by (simp add: renormalize_f32_def)
    qed
    show ?thesis
      using Inr assms(4) acc ren
      by (simp add: fbm_f32_def perlin2d_f32_def z r)
  qed
qed

lemma example_f32_idem: "example_f32 (example_f32 x) = example_f32 x"
  by (simp add: example_f32_def)

lemma example_f32_mono: "x \<le> y \<Longrightarrow> example_f32 x \<le> example_f32 y"
  by (simp add: example_f32_def round_mono divide_right_mono)

lemma example_f32_zero: "example_f32 0 = 0"
  by (simp add: example_f32_def)

lemma example_f32_near:
  assumes "1 - 1 / 2 ^ 25 \<le> x" "x < 1 + 1 / 2 ^ 24"
  shows "example_f32 x = 1"
proof -
  have "round (x * 2 ^ 23) = 2 ^ 23"
    unfolding round_def
  proof (rule floor_unique)
    show "of_int (2 ^ 23) \<le> x * 2 ^ 23 + 1 / 2" using assms(1) by simp
    show "x * 2 ^ 23 + 1 / 2 < of_int (2 ^ 23) + 1" using assms(2) by simp
  qed
  then show ?thesis by (simp add: example_f32_def)
qed

subsection \<open>The padding mask\<close>

lemma fade_0: "fade 0 = 0"
  by (simp add: fade_def)

lemma fade_1: "fade 1 = 1"
  by (simp add: fade_def)

lemma length_axis_mask: "length (axis_mask w p) = w"
  by (simp add: axis_mask_def)

lemma axis_mask_nth:
  "x < w \<Longrightarrow> axis_mask w p ! x =
     fade (min (np_clip (real x / of_int p) 0 1)
               (np_clip (of_int (int w - 1 - int x) / of_int p) 0 1))"
  by (simp add: axis_mask_def Let_def)

lemma axis_mask_border:
  assumes "0 < p" "x < w" "x = 0 \<or> x = w - 1"
  shows "axis_mask w p ! x = 0"
proof -
  have "min (np_clip (real x / of_int p) 0 1)
            (np_clip (of_int (int w - 1 - int x) / of_int p) 0 1) = 0"
    using assms by (auto simp: np_clip_def min_def max_def)
  with assms(2) show ?thesis by (simp add: axis_mask_nth fade_0)
qed

lemma axis_mask_inside:
  assumes "0 < p" "x < w" "p \<le> int x" "p \<le> int w - 1 - int x"
  shows "axis_mask w p ! x = 1"
proof -
  have p: "0 < (of_int p :: real)" using assms(1) by simp
  have "of_int p \<le> (real x)" using assms(3) by linarith
  then have l: "1 \<le> real x / of_int p" using p by (simp add: pos_le_divide_eq)
  have "(of_int p :: real) \<le> of_int (int w - 1 - int x)" using assms(4) by linarith
  then have r: "1 \<le> of_int (int w - 1 - int x) / (of_int p :: real)"
    using p by (simp add: pos_le_divide_eq)
  have "min (np_clip (real x / of_int p) 0 1)
            (np_clip (of_int (int w - 1 - int x) / of_int p) 0 1) = 1"
    using l r by (simp add: np_clip_def min_def max_def)
  with assms(2) show ?thesis by (simp add: axis_mask_nth fade_1)
qed

lemma falloff_mask_nth:
  "y < h \<Longrightarrow> x < w \<Longrightarrow>
     falloff_mask h w p ! y ! x = axis_mask h p ! y * axis_mask w p ! x"
  by (simp add: falloff_mask_def np_outer_def length_axis_mask)

lemma shape_rect:
  "n \<noteq> [] \<Longrightarrow> \<forall>row \<in> set n. length row = w \<Longrightarrow> shape n = (length n, w)"
  by (cases n) (simp_all add: shape_def)

lemma padding_stage_nth:
  assumes "0 < p" "\<forall>row \<in> set n. length row = w" "y < length n" "x < w"
  shows "padding_stage n p ! y ! x = n ! y ! x * falloff_mask (length n) w p ! y ! x"
proof -
  have ne: "n \<noteq> []" using assms(3) by auto
  have row: "length (n ! y) = w" using assms(2,3) by simp
  have lm: "length (falloff_mask (length n) w p) = length n"
    by (simp add: falloff_mask_def np_outer_def length_axis_mask)
  have lr: "length (falloff_mask (length n) w p ! y) = w"
    using assms(3) by (simp add: falloff_mask_def np_outer_def length_axis_mask)
  show ?thesis
    using assms(1,3,4) row lm lr
    by (simp add: padding_stage_def shape_rect [OF ne assms(2)] field_mul_def)
qed

subsection \<open>Evaluation of the examples\<close>

lemmas perlin2d_eval =
  perlin2d_def example_rng_def linspace_def box_bounds_def grid_of_def amin_def amax_def
  gradient_grid_def uniform_angles_def interpolate_def noise_at_def grad_at_box_def
  grad_at_tile_def np_index2_def minmax_normalize_def fade_def lerp_def tile_cells_def
  py_round_def Let_def upt_conv_Cons

lemmas fbm_eval =
  fbm_def np_zeros_def py_range_def accumulate_def renormalize_def np_clip_def
  numeral_2_eq_2 upt_conv_Cons

lemmas octaves_eval =
  fbm_by_octaves_def octave_noise_def octave_scale_def octave_seed_def octave_amp_def
  weighted_sum_def

lemmas f32_eval =
  perlin2d_f32_def fbm_f32_def accumulate_f32_def renormalize_f32_def example_f32_def
  round_def np_zeros_def py_range_def np_clip_def upt_conv_Cons

section \<open>Invalid parameters\<close>

text \<open>
  C1, as the code has it. perlin2d rejects a scale that is not greater than 0 with
  ValueError, in its first statement and whatever the other parameters are. It has no
  check of width and height; with a width or height that is not greater than 0 it
  still returns no field, because numpy raises ValueError (linspace on a negative
  count, min on an empty array). fbm with at least one octave fails on each of these
  parameters too. fbm has no check of octaves: with less than one octave and
  dimensions that are not negative it raises nothing and returns the field of zeros.
\<close>

theorem invalid_parameters:
  "(s \<le> 0 \<longrightarrow> perlin2d default_rng width height s seed tileable = Inl ValueError)
   \<and> (width \<le> 0 \<or> height \<le> 0
        \<longrightarrow> (\<exists>e. perlin2d default_rng width height s seed tileable = Inl e)
          \<and> ((\<exists>draws. default_rng seed = Inr draws)
                \<longrightarrow> perlin2d default_rng width height s seed tileable = Inl ValueError))
   \<and> (1 \<le> octaves \<and> (s \<le> 0 \<or> width \<le> 0 \<or> height \<le> 0)
        \<longrightarrow> (\<exists>e. fbm default_rng width height s octaves lacunarity gain seed tileable = Inl e))
   \<and> (octaves < 1 \<and> 0 \<le> width \<and> 0 \<le> height
        \<longrightarrow> fbm default_rng width height s octaves lacunarity gain seed tileable
              = Inr (replicate (nat height) (replicate (nat width) 0)))"
proof (intro conjI impI)
  show "perlin2d default_rng width height s seed tileable = Inl ValueError" if "s \<le> 0"
    using that by (rule perlin2d_scale_invalid)
  show "\<exists>e. perlin2d default_rng width height s seed tileable = Inl e"
    if "width \<le> 0 \<or> height \<le> 0"
    using that perlin2d_invalid [of s width height default_rng seed tileable] by blast
  show "perlin2d default_rng width height s seed tileable = Inl ValueError"
    if "width \<le> 0 \<or> height \<le> 0" "\<exists>draws. default_rng seed = Inr draws"
    using that perlin2d_dimension_invalid [of width height default_rng seed] by blast
  show "\<exists>e. fbm default_rng width height s octaves lacunarity gain seed tileable = Inl e"
    if "1 \<le> octaves \<and> (s \<le> 0 \<or> width \<le> 0 \<or> height \<le> 0)"
    using that fbm_invalid [of octaves s width height] by blast
  show "fbm default_rng width height s octaves lacunarity gain seed tileable
          = Inr (replicate (nat height) (replicate (nat width) 0))"
    if "octaves < 1 \<and> 0 \<le> width \<and> 0 \<le> height"
    using that by (simp add: fbm_no_octaves)
qed

theorem invalid_parameters_witness:
  "perlin2d example_rng 4 4 0 7 False = Inl ValueError
   \<and> perlin2d example_rng 0 4 2 7 True = Inl ValueError
   \<and> (\<exists>e. fbm example_rng 4 (- 1) 2 3 2 (1/2) 7 False = Inl e)
   \<and> fbm example_rng 3 2 2 0 2 (1/2) 7 False = Inr [[0, 0, 0], [0, 0, 0]]"
proof -
  have d: "\<exists>draws. example_rng 7 = Inr draws" by (simp add: example_rng_def)
  have r: "replicate (nat 2) (replicate (nat 3) (0::real)) = [[0, 0, 0], [0, 0, 0]]"
    by (simp add: numeral_2_eq_2 numeral_3_eq_3)
  show ?thesis
    using invalid_parameters [of 0 example_rng 4 4 7 False 3 2 "1/2"]
      invalid_parameters [of 2 example_rng 0 4 7 True 3 2 "1/2"]
      invalid_parameters [of 2 example_rng 4 "- 1" 7 False 3 2 "1/2"]
      invalid_parameters [of 2 example_rng 3 2 7 False 0 2 "1/2"] d r
    by simp
qed

text \<open>
  The claim C1 as stated fails for \<open>octaves < 1\<close>: with no octave fbm raises no
  error and returns a field.
\<close>

theorem invalid_parameters_counterexample:
  "fbm example_rng 2 2 1 0 2 (1/2) 7 False = Inr [[0, 0], [0, 0]]
   \<and> (\<forall>e. fbm example_rng 2 2 1 0 2 (1/2) 7 False \<noteq> Inl e)"
  by (simp add: fbm_eval)

section \<open>A single octave\<close>

text \<open>
  C2, as the code has it. Let \<open>f32\<close> be a rounding to float32: idempotent, monotone,
  with \<open>f32 0 = 0\<close>, and taking every number from \<open>1 - 2^-25\<close> up to, but not
  including, \<open>1 + 2^-24\<close> to 1, as rounding to the nearest float32 does. For width
  and height at least 1, a base scale greater than 0, every seed, tileable flag and
  gain, and every lacunarity other than 0, fbm with one octave returns the very result
  of perlin2d with \<open>scale = base_scale\<close> and the same seed: the identical field, or the
  same error; and it is a field of height rows of width pixels when the generator
  accepts the seed.
\<close>

theorem single_octave_identity:
  assumes "1 \<le> width" "1 \<le> height" "0 < base_scale" "lacunarity \<noteq> 0"
    and "\<forall>x. f32 (f32 x) = f32 x"
    and "\<forall>x y. x \<le> y \<longrightarrow> f32 x \<le> f32 y"
    and "f32 0 = 0"
    and "\<forall>x. 1 - 1 / 2 ^ 25 \<le> x \<and> x < 1 + 1 / 2 ^ 24 \<longrightarrow> f32 x = 1"
  shows "fbm_f32 f32 default_rng width height base_scale 1 lacunarity gain seed tileable
           = perlin2d_f32 f32 default_rng width height base_scale seed tileable
       \<and> ((\<exists>draws. default_rng seed = Inr draws)
            \<longrightarrow> (\<exists>F. perlin2d_f32 f32 default_rng width height base_scale seed tileable = Inr F
                      \<and> fbm_f32 f32 default_rng width height base_scale 1 lacunarity gain seed
                           tileable = Inr F
                      \<and> has_shape F (nat height) (nat width)))"
proof (intro conjI impI)
  show eq: "fbm_f32 f32 default_rng width height base_scale 1 lacunarity gain seed tileable
           = perlin2d_f32 f32 default_rng width height base_scale seed tileable"
    using assms by (rule single_octave_f32)
  assume "\<exists>draws. default_rng seed = Inr draws"
  then obtain draws where "default_rng seed = Inr draws" by blast
  then obtain F where F: "perlin2d default_rng width height base_scale seed tileable = Inr F"
    "has_shape F (nat height) (nat width)"
    using perlin2d_shape [of width height base_scale default_rng seed draws tileable]
      assms(1,2,3)
    by blast
  have "perlin2d_f32 f32 default_rng width height base_scale seed tileable
          = Inr (map (map f32) F)"
    using F(1) by (simp add: perlin2d_f32_def)
  moreover have "has_shape (map (map f32) F) (nat height) (nat width)"
    using F(2) by (simp add: has_shape_iff)
  ultimately show "\<exists>F. perlin2d_f32 f32 default_rng width height base_scale seed tileable = Inr F
      \<and> fbm_f32 f32 default_rng width height base_scale 1 lacunarity gain seed tileable = Inr F
      \<and> has_shape F (nat height) (nat width)"
    using eq by simp
qed

theorem single_octave_identity_witness:
  "perlin2d_f32 example_f32 example_rng 4 1 4 7 False = Inr [[0, 309 / 512, 1, 309 / 512]]
   \<and> fbm_f32 example_f32 example_rng 4 1 4 1 2 (1/2) 7 False
       = Inr [[0, 309 / 512, 1, 309 / 512]]
   \<and> perlin2d_f32 example_f32 example_rng 4 1 4 (- 3) False = Inl ValueError
   \<and> fbm_f32 example_f32 example_rng 4 1 4 1 2 (1/2) (- 3) False = Inl ValueError"
proof -
  have p: "perlin2d_f32 example_f32 example_rng 4 1 4 7 False
             = Inr [[0, 309 / 512, 1, 309 / 512]]"
    "perlin2d_f32 example_f32 example_rng 4 1 4 (- 3) False = Inl ValueError"
    by (simp_all add: perlin2d_eval f32_eval)
  have h: "\<forall>x. example_f32 (example_f32 x) = example_f32 x"
    "\<forall>x y. x \<le> y \<longrightarrow> example_f32 x \<le> example_f32 y"
    "example_f32 0 = 0"
    "\<forall>x. 1 - 1 / 2 ^ 25 \<le> x \<and> x < 1 + 1 / 2 ^ 24 \<longrightarrow> example_f32 x = 1"
    using example_f32_idem example_f32_mono example_f32_zero example_f32_near by blast+
  have n: "(1::int) \<le> 4" "(1::int) \<le> 1" "(0::real) < 4" "(2::real) \<noteq> 0" by simp_all
  show ?thesis
    using single_octave_identity [OF n h, of example_rng "1/2" 7 False]
      single_octave_identity [OF n h, of example_rng "1/2" "- 3" False] p
    by simp
qed

text \<open>
  The claim C2 as stated fails for the lacunarity 0: perlin2d returns a field, and fbm
  with one octave raises ZeroDivisionError at \<^verbatim>\<open>scale /= lacunarity\<close>, with and
  without the rounding to float32.
\<close>

theorem single_octave_identity_counterexample:
  "perlin2d example_rng 2 1 2 7 False = Inr [[0, 500000000000 / 500000000001]]
   \<and> fbm example_rng 2 1 2 1 0 (1/2) 7 False = Inl ZeroDivisionError
   \<and> perlin2d_f32 example_f32 example_rng 2 1 2 7 False = Inr [[0, 1]]
   \<and> fbm_f32 example_f32 example_rng 2 1 2 1 0 (1/2) 7 False = Inl ZeroDivisionError
   \<and> fbm_f32 example_f32 example_rng 2 1 2 1 0 (1/2) 7 False
       \<noteq> perlin2d_f32 example_f32 example_rng 2 1 2 7 False"
proof -
  have p: "perlin2d example_rng 2 1 2 7 False = Inr [[0, 500000000000 / 500000000001]]"
    by (simp add: perlin2d_eval)
  have f: "fbm example_rng 2 1 2 1 0 (1/2) 7 False = Inl ZeroDivisionError"
    by (simp add: fbm_eval p)
  have q: "perlin2d_f32 example_f32 example_rng 2 1 2 7 False = Inr [[0, 1]]"
    by (simp add: p f32_eval)
  have g: "fbm_f32 example_f32 example_rng 2 1 2 1 0 (1/2) 7 False = Inl ZeroDivisionError"
    by (simp add: q fbm_f32_def np_zeros_def py_range_def upt_conv_Cons)
  show ?thesis using p f q g by simp
qed

section \<open>The octaves of fbm\<close>

text \<open>
  C4, as the code has it. When the lacunarity is not 0, fbm is the closed form
  \<open>fbm_by_octaves\<close> with the guard \<open>1e-12\<close>: octave \<open>i\<close> of \<open>range(octaves)\<close> is the
  perlin2d call with scale \<open>base_scale / lacunarity ^ i\<close> and seed \<open>seed + 1013 * i\<close>,
  it is weighted by \<open>gain ^ i\<close>, the weighted octaves are accumulated, the sum is
  divided by the sum of the weights plus \<open>1e-12\<close> and clamped to [0, 1]; the first
  octave call that fails makes fbm fail with its error. When the lacunarity is 0 and
  there is at least one octave, fbm returns no field.
\<close>

theorem fbm_octave_sum:
  "(lacunarity \<noteq> 0
      \<longrightarrow> fbm default_rng width height base_scale octaves lacunarity gain seed tileable
            = fbm_by_octaves (1 / 10 ^ 12) default_rng width height base_scale octaves
                lacunarity gain seed tileable)
   \<and> (lacunarity = 0 \<and> 1 \<le> octaves
      \<longrightarrow> (\<exists>e. fbm default_rng width height base_scale octaves lacunarity gain seed tileable
                 = Inl e))"
  using fbm_closed [of lacunarity default_rng width height base_scale octaves gain seed tileable]
    fbm_lacunarity_zero [of octaves default_rng width height base_scale gain seed tileable]
  by blast

theorem fbm_octave_sum_witness:
  "fbm example_rng 2 1 2 2 2 (1/2) 7 False
     = fbm_by_octaves (1 / 10 ^ 12) example_rng 2 1 2 2 2 (1/2) 7 False
   \<and> perlin2d example_rng 2 1 (2 / 2 ^ 0) (7 + 1013 * 0) False
       = Inr [[0, 500000000000 / 500000000001]]
   \<and> perlin2d example_rng 2 1 (2 / 2 ^ 1) (7 + 1013 * 1) False = Inr [[0, 0]]
   \<and> fbm_by_octaves (1 / 10 ^ 12) example_rng 2 1 2 2 2 (1/2) 7 False
       = Inr [[0, 500000000000000000000000 / 750000000002000000000001]]
   \<and> (\<exists>e. fbm example_rng 2 1 2 2 0 (1/2) 7 False = Inl e)"
proof -
  have p: "perlin2d example_rng 2 1 2 7 False = Inr [[0, 500000000000 / 500000000001]]"
    "perlin2d example_rng 2 1 1 1020 False = Inr [[0, 0]]"
    by (simp_all add: perlin2d_eval)
  have c: "fbm_by_octaves (1 / 10 ^ 12) example_rng 2 1 2 2 2 (1/2) 7 False
       = Inr [[0, 500000000000000000000000 / 750000000002000000000001]]"
    by (simp add: octaves_eval p np_zeros_def accumulate_def renormalize_def np_clip_def
          numeral_2_eq_2 upt_conv_Cons)
  show ?thesis
    using fbm_octave_sum [of 2 example_rng 2 1 2 2 "1/2" 7 False]
      fbm_octave_sum [of 0 example_rng 2 1 2 2 "1/2" 7 False] p c
    by simp
qed

text \<open>
  The claim C4 as stated, \<open>fbm_by_octaves\<close> with the guard 0, fails for the lacunarity
  0: octave 0 has the scale \<open>base_scale / 0 ^ 0 = base_scale\<close> and gives a field, but
  fbm raises ZeroDivisionError.
\<close>

theorem fbm_octave_sum_counterexample:
  "fbm_by_octaves 0 example_rng 1 2 2 1 0 (1/2) 3 False = Inr [[0], [0]]
   \<and> fbm example_rng 1 2 2 1 0 (1/2) 3 False = Inl ZeroDivisionError
   \<and> fbm example_rng 1 2 2 1 0 (1/2) 3 False
       \<noteq> fbm_by_octaves 0 example_rng 1 2 2 1 0 (1/2) 3 False"
proof -
  have p: "perlin2d example_rng 1 2 2 3 False = Inr [[0], [0]]"
    by (simp add: perlin2d_eval)
  have c: "fbm_by_octaves 0 example_rng 1 2 2 1 0 (1/2) 3 False = Inr [[0], [0]]"
    by (simp add: octaves_eval p np_zeros_def accumulate_def renormalize_def np_clip_def
          numeral_2_eq_2 upt_conv_Cons)
  have f: "fbm example_rng 1 2 2 1 0 (1/2) 3 False = Inl ZeroDivisionError"
    by (simp add: fbm_eval p)
  show ?thesis using c f by simp
qed

section \<open>Range of perlin2d and fbm\<close>

text \<open>
  C3. For width and height at least 1, a scale greater than 0 and at least one octave:
  every pixel of a field that perlin2d returns lies in [0, 1], and so does every pixel
  of a field that fbm returns. perlin2d does return a field of height rows of width
  pixels when the generator accepts the seed, and fbm does when moreover the
  lacunarity is greater than 0 and the generator accepts the seed of every octave.
\<close>

theorem range_invariant:
  assumes "1 \<le> width" "1 \<le> height" "0 < s" "1 \<le> octaves"
  shows "(\<forall>F. perlin2d default_rng width height s seed tileable = Inr F
              \<longrightarrow> in_unit_interval F)
       \<and> (\<forall>G. fbm default_rng width height s octaves lacunarity gain seed tileable = Inr G
              \<longrightarrow> in_unit_interval G)
       \<and> ((\<exists>draws. default_rng seed = Inr draws)
              \<longrightarrow> (\<exists>F. perlin2d default_rng width height s seed tileable = Inr F
                        \<and> has_shape F (nat height) (nat width)))
       \<and> (0 < lacunarity
            \<and> (\<forall>i < nat octaves. \<exists>draws. default_rng (octave_seed seed i) = Inr draws)
              \<longrightarrow> (\<exists>G. fbm default_rng width height s octaves lacunarity gain seed tileable
                          = Inr G
                        \<and> has_shape G (nat height) (nat width)))"
proof (intro conjI allI impI)
  fix F
  assume "perlin2d default_rng width height s seed tileable = Inr F"
  then show "in_unit_interval F" by (rule perlin2d_unit)
next
  fix G
  assume "fbm default_rng width height s octaves lacunarity gain seed tileable = Inr G"
  then show "in_unit_interval G" by (rule fbm_range)
next
  assume "\<exists>draws. default_rng seed = Inr draws"
  then obtain draws where d: "default_rng seed = Inr draws" by blast
  show "\<exists>F. perlin2d default_rng width height s seed tileable = Inr F
          \<and> has_shape F (nat height) (nat width)"
    using perlin2d_shape [of width height s default_rng seed draws tileable] assms(1,2,3) d
    by blast
next
  assume a: "0 < lacunarity
    \<and> (\<forall>i < nat octaves. \<exists>draws. default_rng (octave_seed seed i) = Inr draws)"
  show "\<exists>G. fbm default_rng width height s octaves lacunarity gain seed tileable = Inr G
          \<and> has_shape G (nat height) (nat width)"
    using fbm_total [of width height s lacunarity octaves default_rng seed gain tileable]
      assms(1,2,3) a
    by blast
qed

theorem range_invariant_witness:
  "perlin2d example_rng 2 1 2 7 False = Inr [[0, 500000000000 / 500000000001]]
   \<and> in_unit_interval [[0, 500000000000 / 500000000001]]
   \<and> fbm example_rng 2 1 2 1 2 (1/2) 7 False
       = Inr [[0, 500000000000000000000000 / 500000000001500000000001]]
   \<and> in_unit_interval [[0, 500000000000000000000000 / 500000000001500000000001]]"
proof -
  have p: "perlin2d example_rng 2 1 2 7 False = Inr [[0, 500000000000 / 500000000001]]"
    by (simp add: perlin2d_eval)
  have f: "fbm example_rng 2 1 2 1 2 (1/2) 7 False
             = Inr [[0, 500000000000000000000000 / 500000000001500000000001]]"
    by (simp add: fbm_eval p)
  show ?thesis
    using range_invariant [of 2 1 2 1 example_rng 7 False 2 "1/2"] p f
    by simp
qed

section \<open>The gradient lattice of tileable mode\<close>

text \<open>
  C5. In tileable mode the gradient lookup gives the same result at the lattice
  coordinates \<open>(ix, iy)\<close> and \<open>(ix + k * grid_w, iy + l * grid_h)\<close>, for all integers
  \<open>ix\<close>, \<open>iy\<close>, \<open>k\<close> and \<open>l\<close>; on the lattice that perlin2d builds, of
  \<open>tile_cells height scale\<close> rows of \<open>tile_cells width scale\<close> gradients, that
  result is a gradient and never an IndexError.
\<close>

theorem tile_lookup_periodic:
  "grad_at_tile grid_w grid_h grads (ix + k * grid_w) (iy + l * grid_h)
     = grad_at_tile grid_w grid_h grads ix iy
   \<and> (\<exists>g. grad_at_tile (tile_cells width s) (tile_cells height s)
              (gradient_grid draws (tile_cells height s) (tile_cells width s)) ix iy = Inr g
          \<and> grad_at_tile (tile_cells width s) (tile_cells height s)
              (gradient_grid draws (tile_cells height s) (tile_cells width s))
              (ix + k * tile_cells width s) (iy + l * tile_cells height s) = Inr g)"
proof
  show "grad_at_tile grid_w grid_h grads (ix + k * grid_w) (iy + l * grid_h)
          = grad_at_tile grid_w grid_h grads ix iy"
    by (simp add: grad_at_tile_def)
  show "\<exists>g. grad_at_tile (tile_cells width s) (tile_cells height s)
              (gradient_grid draws (tile_cells height s) (tile_cells width s)) ix iy = Inr g
          \<and> grad_at_tile (tile_cells width s) (tile_cells height s)
              (gradient_grid draws (tile_cells height s) (tile_cells width s))
              (ix + k * tile_cells width s) (iy + l * tile_cells height s) = Inr g"
    by (simp add: grad_at_tile_total tile_cells_pos)
qed

text \<open>
  C6, as the code has it. In tileable mode the lattice that perlin2d builds has
  \<open>max 1 (round (height / scale))\<close> rows of \<open>max 1 (round (width / scale))\<close>
  gradients, with Python's \<^verbatim>\<open>round\<close>: exactly \<open>round (dimension / scale)\<close> cells on an
  axis where that is at least 1, and one cell where it is less. It is the lattice that
  perlin2d interpolates over: for a scale greater than 0 and a seed that the generator
  accepts, the result of perlin2d is that of \<open>interpolate\<close> with the wrapping lookup
  on this lattice.
\<close>

theorem tile_lattice_cells:
  "has_shape (gradient_grid draws (tile_cells height s) (tile_cells width s))
     (nat (max 1 (py_round (of_int height / s)))) (nat (max 1 (py_round (of_int width / s))))
   \<and> (1 \<le> py_round (of_int width / s) \<longrightarrow> tile_cells width s = py_round (of_int width / s))
   \<and> (py_round (of_int width / s) < 1 \<longrightarrow> tile_cells width s = 1)
   \<and> (1 \<le> py_round (of_int height / s) \<longrightarrow> tile_cells height s = py_round (of_int height / s))
   \<and> (py_round (of_int height / s) < 1 \<longrightarrow> tile_cells height s = 1)
   \<and> (0 < s \<and> 0 \<le> width \<and> 0 \<le> height \<and> default_rng seed = Inr draws
        \<longrightarrow> (\<exists>xs ys. linspace (of_int (tile_cells width s)) width = Inr xs
                   \<and> linspace (of_int (tile_cells height s)) height = Inr ys
                   \<and> perlin2d default_rng width height s seed True
                       = interpolate
                           (grad_at_tile (tile_cells width s) (tile_cells height s)
                              (gradient_grid draws (tile_cells height s) (tile_cells width s)))
                           xs ys))"
  using perlin2d_tileable [of s width height default_rng seed draws]
  by (simp add: has_shape_iff length_gradient_grid length_gradient_grid_row tile_cells_def)

theorem tile_lattice_cells_witness:
  "has_shape (gradient_grid (\<lambda>k. 0) (tile_cells 5 2) (tile_cells 7 2)) 2 4
   \<and> py_round (of_int 7 / 2) = 4 \<and> tile_cells 7 2 = 4
   \<and> py_round (of_int 5 / 2) = 2 \<and> tile_cells 5 2 = 2
   \<and> py_round (of_int 1 / 4) = 0 \<and> tile_cells 1 4 = 1"
proof -
  have r: "py_round (of_int 7 / 2) = 4" "py_round (of_int 5 / 2) = 2"
    "py_round (of_int 1 / 4) = 0"
    by (simp_all add: py_round_def Let_def)
  have m: "nat (max 1 (4::int)) = 4" "nat (max 1 (2::int)) = 2" by simp_all
  note t = tile_lattice_cells [of "\<lambda>k. 0" 5 2 7 example_rng 7, unfolded r m]
  note u = tile_lattice_cells [of "\<lambda>k. 0" 1 4 1 example_rng 7, unfolded r]
  have a: "has_shape (gradient_grid (\<lambda>k. 0) (tile_cells 5 2) (tile_cells 7 2)) 2 4"
    using t by (rule conjunct1)
  have b: "tile_cells 7 2 = 4" using t by simp
  have c: "tile_cells 5 2 = 2" using t by simp
  have d: "tile_cells 1 4 = 1" using u by simp
  show ?thesis using a b c d r by blast
qed

text \<open>
  The claim C6 as stated fails where \<open>round (dimension / scale)\<close> is 0: for a field of
  1 by 1 pixels at scale 4 the lattice has one row of one gradient, not none.
\<close>

theorem tile_lattice_cells_counterexample:
  "py_round (of_int 1 / 4) = 0
   \<and> has_shape (gradient_grid (\<lambda>k. 0) (tile_cells 1 4) (tile_cells 1 4)) 1 1
   \<and> \<not> has_shape (gradient_grid (\<lambda>k. 0) (tile_cells 1 4) (tile_cells 1 4))
         (nat (py_round (of_int 1 / 4))) (nat (py_round (of_int 1 / 4)))"
  by (simp add: py_round_def tile_cells_def has_shape_def gradient_grid_def
        uniform_angles_def Let_def)

section \<open>Threshold stage\<close>

text \<open>
  C7. The threshold stage keeps the shape of its input and maps the pixel at every
  position to 255 when its value is greater than the threshold and to 0 otherwise; a
  pixel equal to the threshold maps to 0, and no byte of the output is other than 0
  or 255.
\<close>

theorem threshold_stage_binary:
  "length (threshold_stage n t) = length n
   \<and> (\<forall>y < length n. length (threshold_stage n t ! y) = length (n ! y)
        \<and> (\<forall>x < length (n ! y).
              threshold_stage n t ! y ! x = (if n ! y ! x > t then 255 else 0)))
   \<and> threshold_pixel t t = 0
   \<and> (\<forall>row \<in> set (threshold_stage n t). \<forall>b \<in> set row. b = 0 \<or> b = 255)"
  by (auto simp: threshold_stage_def threshold_pixel_def)

theorem threshold_stage_binary_witness:
  "threshold_stage [[1/4, 11/20], [3/5, 1]] (11/20) = [[0, 0], [255, 255]]
   \<and> threshold_stage [[1/4, 11/20], [3/5, 1]] (11/20) ! 1 ! 0 = 255
   \<and> threshold_pixel (11/20) (11/20) = 0"
  using threshold_stage_binary [of "[[1/4, 11/20], [3/5, 1]]" "11/20"]
  by (simp add: threshold_stage_def threshold_pixel_def)

text \<open>
  C8. For a fixed field and thresholds \<open>t1 \<le> t2\<close>, the threshold stage at \<open>t2\<close>
  sets at most as many pixels to 255 as it does at \<open>t1\<close>.
\<close>

theorem threshold_monotone:
  "t1 \<le> t2 \<Longrightarrow> count_on (threshold_stage n t2) \<le> count_on (threshold_stage n t1)"
  unfolding count_on_threshold_stage
  by (rule length_filter_mono) simp

theorem threshold_monotone_witness:
  "(2/5 :: real) \<le> 11/20
   \<and> count_on (threshold_stage [[1/4, 1/2], [3/5, 1]] (11/20)) = 2
   \<and> count_on (threshold_stage [[1/4, 1/2], [3/5, 1]] (2/5)) = 3
   \<and> count_on (threshold_stage [[1/4, 1/2], [3/5, 1]] (11/20))
       \<le> count_on (threshold_stage [[1/4, 1/2], [3/5, 1]] (2/5))"
  using threshold_monotone [of "2/5" "11/20" "[[1/4, 1/2], [3/5, 1]]"]
  by (simp add: count_on_def threshold_stage_def threshold_pixel_def)

section \<open>Padding stage\<close>

text \<open>
  C9. For a padding \<open>p > 0\<close> and a field of \<open>h\<close> rows of \<open>w\<close> pixels, the mask
  at pixel \<open>(y, x)\<close> is the product of the fade-shaped ramp of the y axis at \<open>y\<close> and
  that of the x axis at \<open>x\<close>; it is 0 when the pixel lies on a border and 1 when the
  pixel is at distance at least \<open>p\<close> from all four borders; and the stage multiplies
  the field by the mask elementwise.
\<close>

theorem padding_mask_boundary:
  assumes "0 < p" "\<forall>row \<in> set n. length row = w" "y < length n" "x < w"
  shows "falloff_mask (length n) w p ! y ! x
           = fade (min (np_clip (real y / of_int p) 0 1)
                       (np_clip (of_int (int (length n) - 1 - int y) / of_int p) 0 1))
             * fade (min (np_clip (real x / of_int p) 0 1)
                         (np_clip (of_int (int w - 1 - int x) / of_int p) 0 1))
       \<and> (x = 0 \<or> x = w - 1 \<or> y = 0 \<or> y = length n - 1
           \<longrightarrow> falloff_mask (length n) w p ! y ! x = 0)
       \<and> (p \<le> int x \<and> p \<le> int w - 1 - int x \<and> p \<le> int y
             \<and> p \<le> int (length n) - 1 - int y
           \<longrightarrow> falloff_mask (length n) w p ! y ! x = 1)
       \<and> padding_stage n p ! y ! x = n ! y ! x * falloff_mask (length n) w p ! y ! x"
proof (intro conjI impI)
  show "falloff_mask (length n) w p ! y ! x
           = fade (min (np_clip (real y / of_int p) 0 1)
                       (np_clip (of_int (int (length n) - 1 - int y) / of_int p) 0 1))
             * fade (min (np_clip (real x / of_int p) 0 1)
                         (np_clip (of_int (int w - 1 - int x) / of_int p) 0 1))"
    using assms(3,4) by (simp add: falloff_mask_nth axis_mask_nth)
  show "falloff_mask (length n) w p ! y ! x = 0"
    if "x = 0 \<or> x = w - 1 \<or> y = 0 \<or> y = length n - 1"
    using that assms(1,3,4) axis_mask_border [of p x w] axis_mask_border [of p y "length n"]
    by (auto simp: falloff_mask_nth)
  show "falloff_mask (length n) w p ! y ! x = 1"
    if "p \<le> int x \<and> p \<le> int w - 1 - int x \<and> p \<le> int y
          \<and> p \<le> int (length n) - 1 - int y"
    using that assms(1,3,4) by (simp add: falloff_mask_nth axis_mask_inside)
  show "padding_stage n p ! y ! x = n ! y ! x * falloff_mask (length n) w p ! y ! x"
    using assms by (rule padding_stage_nth)
qed

theorem padding_mask_boundary_witness:
  "falloff_mask 5 5 2 ! 2 ! 2 = 1
   \<and> falloff_mask 5 5 2 ! 0 ! 3 = 0
   \<and> falloff_mask 5 5 2 ! 2 ! 4 = 0
   \<and> padding_stage (replicate 5 [1/5, 2/5, 3/5, 4/5, 1]) 2 ! 2 ! 2 = 3/5
   \<and> padding_stage (replicate 5 [1/5, 2/5, 3/5, 4/5, 1]) 2 ! 0 ! 3 = 0"
  using padding_mask_boundary [of 2 "replicate 5 [1/5, 2/5, 3/5, 4/5, 1]" 5 2 2]
        padding_mask_boundary [of 2 "replicate 5 [1/5, 2/5, 3/5, 4/5, 1]" 5 0 3]
        padding_mask_boundary [of 2 "replicate 5 [1/5, 2/5, 3/5, 4/5, 1]" 5 2 4]
  by (simp add: np_clip_def fade_def)

section \<open>The gradient lattice of non-tileable mode\<close>

text \<open>
  C10. In non-tileable mode, for width and height at least 1 and a scale greater than
  0, the sample grid and the bounds of the lattice exist, and for every pixel each of
  the four corner index pairs, translated by \<open>(gx_min, gy_min)\<close>, lies in
  \<open>[0, grid_w) \<times> [0, grid_h)\<close>, where the gradient array has \<open>grid_h\<close> rows of
  \<open>grid_w\<close> gradients; so no index is negative and every lookup gives a gradient.
  These are the sample grid, the bounds and the lookup of perlin2d: when the generator
  accepts the seed, the result of perlin2d is that of \<open>interpolate\<close> with this lookup
  over this grid.
\<close>

theorem box_lookup_in_range:
  assumes "1 \<le> width" "1 \<le> height" "0 < s"
  shows "\<exists>xs ys gx_min gx_max gy_min gy_max.
           linspace (of_int width / s) width = Inr xs
         \<and> linspace (of_int height / s) height = Inr ys
         \<and> length xs = nat width \<and> length ys = nat height
         \<and> box_bounds xs ys = Inr (gx_min, gx_max, gy_min, gy_max)
         \<and> has_shape (gradient_grid draws (gy_max - gy_min + 1) (gx_max - gx_min + 1))
              (nat (gy_max - gy_min + 1)) (nat (gx_max - gx_min + 1))
         \<and> (\<forall>x \<in> set xs. \<forall>y \<in> set ys. \<forall>c \<in> set (cell_corners x y).
                0 \<le> fst c - gx_min \<and> fst c - gx_min < gx_max - gx_min + 1
              \<and> 0 \<le> snd c - gy_min \<and> snd c - gy_min < gy_max - gy_min + 1
              \<and> (\<exists>g. grad_at_box gx_min gy_min
                        (gradient_grid draws (gy_max - gy_min + 1) (gx_max - gx_min + 1))
                        (fst c) (snd c) = Inr g))
         \<and> (default_rng seed = Inr draws
              \<longrightarrow> perlin2d default_rng width height s seed False
                    = interpolate
                        (grad_at_box gx_min gy_min
                           (gradient_grid draws (gy_max - gy_min + 1) (gx_max - gx_min + 1)))
                        xs ys)"
proof -
  obtain xs where xs: "linspace (of_int width / s) width = Inr xs" "length xs = nat width"
    using linspace_total [of width] assms(1) by fastforce
  obtain ys where ys: "linspace (of_int height / s) height = Inr ys" "length ys = nat height"
    using linspace_total [of height] assms(2) by fastforce
  have ne: "xs \<noteq> []" "ys \<noteq> []" using xs ys assms(1,2) by auto
  obtain gx_min gx_max gy_min gy_max where
    b: "box_bounds xs ys = Inr (gx_min, gx_max, gy_min, gy_max)"
    using box_bounds_total [OF ne] by (metis prod_cases4)
  have "has_shape (gradient_grid draws (gy_max - gy_min + 1) (gx_max - gx_min + 1))
          (nat (gy_max - gy_min + 1)) (nat (gx_max - gx_min + 1))"
    by (simp add: has_shape_iff length_gradient_grid length_gradient_grid_row)
  moreover have "default_rng seed = Inr draws
      \<longrightarrow> perlin2d default_rng width height s seed False
            = interpolate
                (grad_at_box gx_min gy_min
                   (gradient_grid draws (gy_max - gy_min + 1) (gx_max - gx_min + 1)))
                xs ys"
    using perlin2d_box [OF assms(3) _ xs(1) ys(1) b] by blast
  ultimately show ?thesis
    using xs ys b grad_at_box_total [OF b] by blast
qed

theorem box_lookup_in_range_witness:
  "linspace (of_int 3 / 2) 3 = Inr [0, 1/2, 1]
   \<and> linspace (of_int 1 / 2) 1 = Inr [0]
   \<and> box_bounds [0, 1/2, 1] [0] = Inr (0, 2, 0, 1)
   \<and> cell_corners 1 0 = [(1, 0), (2, 0), (1, 1), (2, 1)]
   \<and> has_shape (gradient_grid (\<lambda>k. 0) (1 - 0 + 1) (2 - 0 + 1)) 2 3
   \<and> grad_at_box 0 0 (gradient_grid (\<lambda>k. 0) (1 - 0 + 1) (2 - 0 + 1)) 2 1 = Inr (1, 0)"
  using box_lookup_in_range [of 3 1 2 "\<lambda>k. 0" example_rng 7]
  by (simp add: linspace_def box_bounds_def grid_of_def amin_def amax_def cell_corners_def
        has_shape_def gradient_grid_def uniform_angles_def grad_at_box_def np_index2_def
        Let_def upt_conv_Cons)

end
